theory Spec2Isabelle
  imports Complex_Main "HOL-Library.Word"
begin

section \<open>Data model\<close>

text \<open>
  Addresses are the base58 strings the program passes around
  (\<^verbatim>\<open>publicKey.toBase58()\<close>). Addresses, names, status tags, storage keys and base64
  texts are modelled as HOL strings, one \<^typ>\<open>char\<close> per UTF-16 code unit, which covers
  the code units below 256; the plaintexts and passwords of the cipher are lists of
  16-bit code units. Byte buffers are lists of 8-bit words.
\<close>

type_synonym address = string
type_synonym bytes = "8 word list"

text \<open>\<^verbatim>\<open>MultisigMember\<close>, \<^verbatim>\<open>MultisigVault\<close> and \<^verbatim>\<open>ProposalInfo\<close> of utils/multisig.\<close>

record Permissions =
  initiate :: bool
  vote :: bool
  execute :: bool

record MultisigMember =
  publicKey :: address
  permissions :: Permissions

record MultisigVault =
  address :: address
  createKey :: address
  threshold :: nat
  members :: "MultisigMember list"
  transactionIndex :: nat
  staleTransactionIndex :: nat
  rentCollector :: "address option"
  bump :: nat

datatype ProposalStatus = Active | Approved | Rejected | Executed | Cancelled | Draft

record ProposalInfo =
  index :: nat
  multisigPda :: address
  transactionPda :: address
  proposalPda :: address
  status :: ProposalStatus
  approvals :: "address list"
  rejections :: "address list"

text \<open>
  The on-chain proposal account as the SDK decodes it: the tag of its status
  (\<^verbatim>\<open>proposal.status.__kind\<close>) and the two vote lists.
\<close>

record Proposal =
  status_kind :: string
  approved :: "address list"
  rejected :: "address list"

text \<open>
  The chain reader. \<^verbatim>\<open>Multisig.fromAccountAddress\<close> and
  \<^verbatim>\<open>Proposal.fromAccountAddress\<close> throw when the account is missing or does not
  decode; both callers catch that, so a fetch is an option. The program-derived
  addresses come from the SDK and stay opaque functions. Every fetch is recorded in a
  list of RPC requests that the reading functions thread through.
\<close>

record ChainReader =
  fetchMultisig :: "address \<Rightarrow> MultisigVault option"
  fetchProposal :: "address \<Rightarrow> Proposal option"
  getTransactionPda :: "address \<Rightarrow> nat \<Rightarrow> address"
  getProposalPda :: "address \<Rightarrow> nat \<Rightarrow> address"

datatype rpc = FetchMultisig address | FetchProposal address nat

section \<open>Reading vaults and proposals (utils/multisig)\<close>

text \<open>
  \<^verbatim>\<open>getMultisigAccount\<close>: the decoded account with \<^verbatim>\<open>address\<close> set to the
  queried address, \<^verbatim>\<open>null\<close> when the fetch throws.
\<close>

definition getMultisigAccount ::
  "ChainReader \<Rightarrow> address \<Rightarrow> rpc list \<Rightarrow> MultisigVault option \<times> rpc list" where
  "getMultisigAccount connection pda calls =
     (case fetchMultisig connection pda of
        None \<Rightarrow> (None, calls @ [FetchMultisig pda])
      | Some account \<Rightarrow> (Some (account\<lparr>address := pda\<rparr>), calls @ [FetchMultisig pda]))"

text \<open>
  The status chain of \<^verbatim>\<open>getProposalStatus\<close>: the variable starts as
  \<^verbatim>\<open>"Draft"\<close> and is overwritten when the tag is one of five names.
\<close>

definition determineStatus :: "string \<Rightarrow> ProposalStatus" where
  "determineStatus kind =
     (if kind = ''Active'' then Active
      else if kind = ''Approved'' then Approved
      else if kind = ''Rejected'' then Rejected
      else if kind = ''Executed'' then Executed
      else if kind = ''Cancelled'' then Cancelled
      else Draft)"

definition getProposalStatus ::
  "ChainReader \<Rightarrow> address \<Rightarrow> nat \<Rightarrow> rpc list \<Rightarrow> ProposalInfo option \<times> rpc list" where
  "getProposalStatus connection pda transactionIdx calls =
     (let txPda = getTransactionPda connection pda transactionIdx;
          propPda = getProposalPda connection pda transactionIdx
      in case fetchProposal connection propPda of
           None \<Rightarrow> (None, calls @ [FetchProposal pda transactionIdx])
         | Some proposal \<Rightarrow>
             (Some \<lparr>index = transactionIdx,
                    multisigPda = pda,
                    transactionPda = txPda,
                    proposalPda = propPda,
                    status = determineStatus (status_kind proposal),
                    approvals = approved proposal,
                    rejections = rejected proposal\<rparr>,
              calls @ [FetchProposal pda transactionIdx]))"

text \<open>
  \<^verbatim>\<open>getProposals\<close>: the loop \<^verbatim>\<open>for (let i = startIndex; i <= currentIndex; i++)\<close>
  pushes every proposal that could be fetched; the result is reversed.
  \<^verbatim>\<open>Number(transactionIndex)\<close> and the loop counter are JavaScript numbers, modelled
  as integers; that is exact while the index is below \<open>2 ^ 53\<close>.
\<close>

function proposalsLoop ::
  "ChainReader \<Rightarrow> address \<Rightarrow> int \<Rightarrow> int \<Rightarrow> ProposalInfo list \<Rightarrow> rpc list
     \<Rightarrow> ProposalInfo list \<times> rpc list" where
  "proposalsLoop connection pda i currentIndex proposals calls =
     (if i \<le> currentIndex then
        (case getProposalStatus connection pda (nat i) calls of
           (Some proposal, calls') \<Rightarrow>
             proposalsLoop connection pda (i + 1) currentIndex (proposals @ [proposal]) calls'
         | (None, calls') \<Rightarrow>
             proposalsLoop connection pda (i + 1) currentIndex proposals calls')
      else (proposals, calls))"
  by pat_completeness auto
termination
  by (relation "measure (\<lambda>(connection, pda, i, currentIndex, proposals, calls).
        nat (currentIndex + 1 - i))") auto

definition getProposals ::
  "ChainReader \<Rightarrow> address \<Rightarrow> rpc list \<Rightarrow> ProposalInfo list \<times> rpc list" where
  "getProposals connection pda calls =
     (case getMultisigAccount connection pda calls of
        (None, calls1) \<Rightarrow> ([], calls1)
      | (Some multisigAccount, calls1) \<Rightarrow>
          (let currentIndex = int (transactionIndex multisigAccount);
               startIndex = max 1 (currentIndex - 19)
           in case proposalsLoop connection pda startIndex currentIndex [] calls1 of
                (proposals, calls2) \<Rightarrow> (rev proposals, calls2)))"

section \<open>Voting gates\<close>

text \<open>
  The built-in wallet's vault view (VaultDetail): \<^verbatim>\<open>hasVoted\<close>,
  \<^verbatim>\<open>userPermissions\<close> (\<^verbatim>\<open>vault?.members.find(...)?.permissions\<close>) and the
  condition under which the Approve and Reject buttons are rendered:
  \<^verbatim>\<open>proposal.status === 'Active' && (!hasVoted(proposal) && userPermissions?.vote)\<close>.
\<close>

definition hasVoted :: "address \<Rightarrow> ProposalInfo \<Rightarrow> bool" where
  "hasVoted userPubKey proposal =
     (userPubKey \<in> set (approvals proposal) \<or> userPubKey \<in> set (rejections proposal))"

definition userPermissions :: "MultisigVault option \<Rightarrow> address \<Rightarrow> Permissions option" where
  "userPermissions vault userPubKey =
     (case vault of
        None \<Rightarrow> None
      | Some v \<Rightarrow> map_option permissions (find (\<lambda>m. publicKey m = userPubKey) (members v)))"

definition voteButtonsShown :: "MultisigVault option \<Rightarrow> address \<Rightarrow> ProposalInfo \<Rightarrow> bool" where
  "voteButtonsShown vault userPubKey proposal =
     (status proposal = Active \<and>
      (\<not> hasVoted userPubKey proposal \<and>
       (case userPermissions vault userPubKey of None \<Rightarrow> False | Some perms \<Rightarrow> vote perms)))"

text \<open>
  The connected-wallet vault view (ExternalVaultDetail): \<^verbatim>\<open>getUserPermissions\<close>,
  \<^verbatim>\<open>canUserVote\<close>, \<^verbatim>\<open>hasUserVoted\<close> and the rendering condition
  \<^verbatim>\<open>proposal.status === 'Active' && canUserVote() && !hasUserVoted(proposal)\<close>.
  The wallet's public key is absent while no wallet is connected.
\<close>

datatype userVote = approved_vote | rejected_vote

definition getUserPermissions ::
  "address option \<Rightarrow> MultisigVault option \<Rightarrow> Permissions option" where
  "getUserPermissions walletKey vault =
     (case (walletKey, vault) of
        (Some pk, Some v) \<Rightarrow> map_option permissions (find (\<lambda>m. publicKey m = pk) (members v))
      | _ \<Rightarrow> None)"

definition canUserVote :: "address option \<Rightarrow> MultisigVault option \<Rightarrow> bool" where
  "canUserVote walletKey vault =
     (case getUserPermissions walletKey vault of None \<Rightarrow> False | Some perms \<Rightarrow> vote perms)"

definition hasUserVoted :: "address option \<Rightarrow> ProposalInfo \<Rightarrow> userVote option" where
  "hasUserVoted walletKey proposal =
     (case walletKey of
        None \<Rightarrow> None
      | Some pk \<Rightarrow>
          if pk \<in> set (approvals proposal) then Some approved_vote
          else if pk \<in> set (rejections proposal) then Some rejected_vote
          else None)"

definition externalVoteButtonsShown ::
  "address option \<Rightarrow> MultisigVault option \<Rightarrow> ProposalInfo \<Rightarrow> bool" where
  "externalVoteButtonsShown walletKey vault proposal =
     (status proposal = Active \<and> canUserVote walletKey vault \<and>
      hasUserVoted walletKey proposal = None)"

text \<open>
  The approve command of the CLI, between fetching the proposal and submitting the
  approval: it exits with \<^verbatim>\<open>PROPOSAL_NOT_ACTIVE\<close> or \<^verbatim>\<open>ALREADY_APPROVED\<close>,
  otherwise it goes on to \<^verbatim>\<open>approveProposal\<close>.
\<close>

datatype approveError = PROPOSAL_NOT_ACTIVE ProposalStatus | ALREADY_APPROVED

definition approvePreChecks :: "ProposalInfo \<Rightarrow> address \<Rightarrow> approveError + unit" where
  "approvePreChecks proposal userPubKey =
     (if status proposal \<noteq> Active then Inl (PROPOSAL_NOT_ACTIVE (status proposal))
      else if userPubKey \<in> set (approvals proposal) then Inl ALREADY_APPROVED
      else Inr ())"

text \<open>
  The predicate as the specification words it, for a proposal and a member record:
  status Active, vote permission, address in neither vote list.
\<close>

definition canVote_spec :: "ProposalInfo \<Rightarrow> MultisigMember \<Rightarrow> bool" where
  "canVote_spec proposal member =
     (status proposal = Active \<and> vote (permissions member) \<and>
      publicKey member \<notin> set (approvals proposal) \<and>
      publicKey member \<notin> set (rejections proposal))"

section \<open>Vault creation\<close>

text \<open>
  \<^verbatim>\<open>handleCreate\<close> of the connected-wallet form (ExternalCreateVault). The form holds
  \<^verbatim>\<open>MemberInput\<close> rows and an integer threshold (the input handler stores
  \<^verbatim>\<open>parseInt(value) || 1\<close>). \<^verbatim>\<open>new PublicKey(s)\<close> belongs to the web3 library; whether it
  accepts a string is the parameter \<open>isPublicKey\<close>. On success the validated
  members and the threshold are handed to \<^verbatim>\<open>createMultisigVaultWA\<close>.
\<close>

record MemberInput =
  input_address :: string
  input_permissions :: Permissions

datatype createFormError =
    WalletNotConnected
  | AddressRequired
  | InvalidAddress string
  | ThresholdOutOfRange nat

definition isWhiteSpace :: "char \<Rightarrow> bool" where
  "isWhiteSpace c = ((of_char c :: nat) \<in> {9, 10, 11, 12, 13, 32, 160})"

definition trim :: "string \<Rightarrow> string" where
  "trim s = rev (dropWhile isWhiteSpace (rev (dropWhile isWhiteSpace s)))"

fun validateMemberInputs ::
  "(string \<Rightarrow> bool) \<Rightarrow> MemberInput list \<Rightarrow> MultisigMember list
     \<Rightarrow> createFormError + MultisigMember list" where
  "validateMemberInputs isPublicKey [] validMembers = Inr validMembers"
| "validateMemberInputs isPublicKey (member # rest) validMembers =
     (if trim (input_address member) = [] then Inl AddressRequired
      else if isPublicKey (trim (input_address member)) then
        validateMemberInputs isPublicKey rest
          (validMembers @ [\<lparr>publicKey = trim (input_address member),
                            permissions = input_permissions member\<rparr>])
      else Inl (InvalidAddress (input_address member)))"

definition thresholdCheck :: "MemberInput list \<Rightarrow> int \<Rightarrow> createFormError + unit" where
  "thresholdCheck inputs thr =
     (let voterCount = length (filter (\<lambda>m. vote (input_permissions m)) inputs)
      in if thr < 1 \<or> thr > int voterCount then Inl (ThresholdOutOfRange voterCount)
         else Inr ())"

definition handleCreate ::
  "address option \<Rightarrow> (string \<Rightarrow> bool) \<Rightarrow> MemberInput list \<Rightarrow> int
     \<Rightarrow> createFormError + (MultisigMember list \<times> int)" where
  "handleCreate walletKey isPublicKey inputs thr =
     (case walletKey of
        None \<Rightarrow> Inl WalletNotConnected
      | Some _ \<Rightarrow>
          (case validateMemberInputs isPublicKey inputs [] of
             Inl e \<Rightarrow> Inl e
           | Inr validMembers \<Rightarrow>
               (case thresholdCheck inputs thr of
                  Inl e \<Rightarrow> Inl e
                | Inr _ \<Rightarrow> Inr (validMembers, thr))))"

text \<open>
  The create command of the CLI, from the parsing of \<^verbatim>\<open>--members\<close> to the two
  threshold checks. \<^verbatim>\<open>memberAddresses\<close> is a JavaScript \<^verbatim>\<open>Set\<close> seeded with the
  creator: a list in insertion order to which \<^verbatim>\<open>add\<close> appends only new strings.
  \<^verbatim>\<open>threshold\<close> is \<open>0\<close> unless \<^verbatim>\<open>--threshold\<close> is given, then
  \<^verbatim>\<open>parseInt(arg, 10)\<close>: an integer, or \<^verbatim>\<open>NaN\<close>, which is \<open>None\<close> here. Every member
  gets \<^verbatim>\<open>getAllPermissions()\<close>.
\<close>

datatype createCliError =
    INVALID_MEMBER_ADDRESS string
  | INVALID_THRESHOLD_exceeds int nat
  | INVALID_THRESHOLD_below int

fun splitOn :: "char \<Rightarrow> string \<Rightarrow> string list" where
  "splitOn sep [] = [[]]"
| "splitOn sep (c # cs) =
     (if c = sep then [] # splitOn sep cs
      else (case splitOn sep cs of
              [] \<Rightarrow> [[c]]
            | w # ws \<Rightarrow> (c # w) # ws))"

definition setAdd :: "string \<Rightarrow> string list \<Rightarrow> string list" where
  "setAdd x xs = (if x \<in> set xs then xs else xs @ [x])"

fun addMembers ::
  "(string \<Rightarrow> bool) \<Rightarrow> string list \<Rightarrow> address list \<Rightarrow> createCliError + address list" where
  "addMembers isPublicKey [] memberAddresses = Inr memberAddresses"
| "addMembers isPublicKey (addr # rest) memberAddresses =
     (let trimmed = trim addr
      in if trimmed \<noteq> [] then
           (if isPublicKey trimmed then
              addMembers isPublicKey rest (setAdd trimmed memberAddresses)
            else Inl (INVALID_MEMBER_ADDRESS trimmed))
         else addMembers isPublicKey rest memberAddresses)"

definition parseMembers ::
  "(string \<Rightarrow> bool) \<Rightarrow> address \<Rightarrow> string \<Rightarrow> createCliError + address list" where
  "parseMembers isPublicKey creator membersArg =
     (if membersArg \<noteq> [] then addMembers isPublicKey (splitOn CHR '','' membersArg) [creator]
      else Inr [creator])"

definition getAllPermissions :: Permissions where
  "getAllPermissions = \<lparr>initiate = True, vote = True, execute = True\<rparr>"

definition finalThreshold :: "int option \<Rightarrow> nat \<Rightarrow> int" where
  "finalThreshold thr memberCount =
     (case thr of
        Some t \<Rightarrow> if t > 0 then t else \<lceil>real memberCount / 2\<rceil>
      | None \<Rightarrow> \<lceil>real memberCount / 2\<rceil>)"

definition createMultisigConfig ::
  "(string \<Rightarrow> bool) \<Rightarrow> address \<Rightarrow> string \<Rightarrow> int option
     \<Rightarrow> createCliError + (MultisigMember list \<times> int)" where
  "createMultisigConfig isPublicKey creator membersArg thr =
     (case parseMembers isPublicKey creator membersArg of
        Inl e \<Rightarrow> Inl e
      | Inr memberAddresses \<Rightarrow>
          (let membersList =
                 map (\<lambda>addr. \<lparr>publicKey = addr, permissions = getAllPermissions\<rparr>) memberAddresses;
               final = finalThreshold thr (length membersList)
           in if final > int (length membersList) then
                Inl (INVALID_THRESHOLD_exceeds final (length membersList))
              else if final < 1 then Inl (INVALID_THRESHOLD_below final)
              else Inr (membersList, final)))"

section \<open>Password-based cipher\<close>

text \<open>
  The plaintexts and passwords the cipher handles are JavaScript strings, that is,
  sequences of UTF-16 code units; any sequence is a string, also one in which a
  surrogate has no partner.
\<close>

type_synonym jsString = "16 word list"

text \<open>
  What the runtime's UTF-8 encoders do to a string before they encode it, and what
  \<^verbatim>\<open>TextDecoder\<close> does after it has decoded one. \<open>toWellFormed\<close> is
  \<^verbatim>\<open>String.prototype.toWellFormed\<close>: a surrogate that is not part of a pair of a high
  and a low one becomes U+FFFD. \<open>stripBOM\<close> drops one leading U+FEFF, as a
  \<^verbatim>\<open>TextDecoder\<close> built without options does.
\<close>

definition isSurrogate :: "16 word \<Rightarrow> bool" where
  "isSurrogate u = (0xD800 \<le> u \<and> u \<le> 0xDFFF)"

definition isHighSurrogate :: "16 word \<Rightarrow> bool" where
  "isHighSurrogate u = (0xD800 \<le> u \<and> u \<le> 0xDBFF)"

definition isLowSurrogate :: "16 word \<Rightarrow> bool" where
  "isLowSurrogate u = (0xDC00 \<le> u \<and> u \<le> 0xDFFF)"

fun toWellFormed :: "jsString \<Rightarrow> jsString" where
  "toWellFormed [] = []"
| "toWellFormed [u] = (if isSurrogate u then [0xFFFD] else [u])"
| "toWellFormed (u # v # rest) =
     (if isHighSurrogate u \<and> isLowSurrogate v then u # v # toWellFormed rest
      else if isSurrogate u then 0xFFFD # toWellFormed (v # rest)
      else u # toWellFormed (v # rest))"

definition isWellFormed :: "jsString \<Rightarrow> bool" where
  "isWellFormed s = (toWellFormed s = s)"

definition startsWithBOM :: "jsString \<Rightarrow> bool" where
  "startsWithBOM s = (case s of [] \<Rightarrow> False | u # rest \<Rightarrow> u = 0xFEFF)"

definition stripBOM :: "jsString \<Rightarrow> jsString" where
  "stripBOM s = (if startsWithBOM s then tl s else s)"

text \<open>
  The primitives of the runtime (Node's \<^verbatim>\<open>crypto\<close> and \<^verbatim>\<open>Buffer\<close>, the browser's Web
  Crypto, \<^verbatim>\<open>TextEncoder\<close>, \<^verbatim>\<open>TextDecoder\<close>, \<^verbatim>\<open>btoa\<close>, \<^verbatim>\<open>atob\<close>, \<^verbatim>\<open>JSON\<close>) and of the
  web3 library (\<^verbatim>\<open>Keypair\<close>) are not code of this repository; the functions below take
  them as a record.

  \<^item> \<open>pbkdf2\<close> is \<^verbatim>\<open>pbkdf2Sync\<close> and \<open>subtleDeriveKey\<close> is \<^verbatim>\<open>importKey\<close> followed by
    \<^verbatim>\<open>deriveKey\<close>, both PBKDF2-HMAC-SHA256 at the fixed iteration count and key length.
  \<^item> \<open>gcmEncrypt key iv data\<close> is the ciphertext and the authentication tag of
    AES-256-GCM; \<open>gcmDecrypt key iv tag ciphertext\<close> is \<open>None\<close> when the decipher
    throws. \<open>subtleEncrypt\<close> and \<open>subtleDecrypt\<close> are the AES-GCM operations of
    \<^verbatim>\<open>crypto.subtle\<close>, whose ciphertext carries the tag.
  \<^item> \<open>utf8Encode\<close> is the UTF-8 encoding of a string, by \<^verbatim>\<open>cipher.update(data, 'utf8')\<close>
    and by \<^verbatim>\<open>TextEncoder\<close>; \<open>utf8Decode\<close> is \<^verbatim>\<open>Buffer.toString('utf8')\<close> and
    \<open>textDecoderDecode\<close> is \<^verbatim>\<open>new TextDecoder().decode\<close>.
  \<^item> \<open>base64Encode\<close> and \<open>base64Decode\<close> are \<^verbatim>\<open>Buffer.toString('base64')\<close> and
    \<^verbatim>\<open>Buffer.from(_, 'base64')\<close>. \<open>btoa\<close> and \<open>atob\<close> are the browser's functions on
    binary strings, \<open>None\<close> when they throw.
  \<^item> \<open>maxArguments\<close> is the largest number of arguments the engine accepts in one
    call; a call with more throws \<^verbatim>\<open>RangeError\<close>. Engines differ in it.
  \<^item> \<open>jsonStringify\<close> is \<^verbatim>\<open>JSON.stringify\<close> of an array of bytes and \<open>jsonParse\<close> is
    \<^verbatim>\<open>JSON.parse\<close> read as the array of numbers the caller expects, \<open>None\<close> when it
    throws. \<open>keypairFromSecretKey\<close> is \<open>None\<close> when the library rejects the bytes.
\<close>

record Keypair =
  keypair_publicKey :: address
  secretKey :: bytes

record Platform =
  pbkdf2 :: "jsString \<Rightarrow> bytes \<Rightarrow> bytes"
  gcmEncrypt :: "bytes \<Rightarrow> bytes \<Rightarrow> bytes \<Rightarrow> bytes \<times> bytes"
  gcmDecrypt :: "bytes \<Rightarrow> bytes \<Rightarrow> bytes \<Rightarrow> bytes \<Rightarrow> bytes option"
  subtleDeriveKey :: "bytes \<Rightarrow> bytes \<Rightarrow> bytes"
  subtleEncrypt :: "bytes \<Rightarrow> bytes \<Rightarrow> bytes \<Rightarrow> bytes"
  subtleDecrypt :: "bytes \<Rightarrow> bytes \<Rightarrow> bytes \<Rightarrow> bytes option"
  utf8Encode :: "jsString \<Rightarrow> bytes"
  utf8Decode :: "bytes \<Rightarrow> jsString"
  textDecoderDecode :: "bytes \<Rightarrow> jsString"
  base64Encode :: "bytes \<Rightarrow> string"
  base64Decode :: "string \<Rightarrow> bytes"
  btoa :: "jsString \<Rightarrow> string option"
  atob :: "string \<Rightarrow> jsString option"
  maxArguments :: nat
  jsonStringify :: "bytes \<Rightarrow> jsString"
  jsonParse :: "jsString \<Rightarrow> int list option"
  keypairFromSecretKey :: "bytes \<Rightarrow> Keypair option"

text \<open>
  Random bytes are drawn from an entropy stream that every drawing function hands
  back advanced.
\<close>

type_synonym entropy = "nat \<Rightarrow> 8 word"

definition randomBytes :: "nat \<Rightarrow> entropy \<Rightarrow> bytes \<times> entropy" where
  "randomBytes n e = (map e [0..<n], \<lambda>i. e (i + n))"

definition SALT_LENGTH :: nat where "SALT_LENGTH = 16"
definition IV_LENGTH :: nat where "IV_LENGTH = 12"
definition TAG_LENGTH :: nat where "TAG_LENGTH = 16"

definition subarray :: "bytes \<Rightarrow> nat \<Rightarrow> nat \<Rightarrow> bytes" where
  "subarray buf start stop = take (stop - start) (drop start buf)"

text \<open>The Node implementation (skills crypto): salt, iv, tag and ciphertext, in base64.\<close>

definition deriveKey :: "Platform \<Rightarrow> jsString \<Rightarrow> bytes \<Rightarrow> bytes" where
  "deriveKey pl password salt = pbkdf2 pl password salt"

definition encrypt :: "Platform \<Rightarrow> jsString \<Rightarrow> jsString \<Rightarrow> entropy \<Rightarrow> string \<times> entropy" where
  "encrypt pl plaintext password e =
     (case randomBytes SALT_LENGTH e of (salt, e1) \<Rightarrow>
      case randomBytes IV_LENGTH e1 of (iv, e2) \<Rightarrow>
      case gcmEncrypt pl (deriveKey pl password salt) iv (utf8Encode pl plaintext) of
        (encrypted, authTag) \<Rightarrow>
          (base64Encode pl (salt @ iv @ authTag @ encrypted), e2))"

definition decrypt :: "Platform \<Rightarrow> string \<Rightarrow> jsString \<Rightarrow> jsString option" where
  "decrypt pl encryptedData password =
     (let combined = base64Decode pl encryptedData;
          salt = subarray combined 0 SALT_LENGTH;
          iv = subarray combined SALT_LENGTH (SALT_LENGTH + IV_LENGTH);
          authTag = subarray combined (SALT_LENGTH + IV_LENGTH)
                      (SALT_LENGTH + IV_LENGTH + TAG_LENGTH);
          ciphertext = drop (SALT_LENGTH + IV_LENGTH + TAG_LENGTH) combined;
          key = deriveKey pl password salt
      in map_option (utf8Decode pl) (gcmDecrypt pl key iv authTag ciphertext))"



definition fromCharCode :: "bytes \<Rightarrow> jsString" where
  "fromCharCode codes = map ucast codes"



text \<open>
  What the primitives do, as far as the cipher depends on it. Decryption undoes
  encryption under the same key and iv; the GCM tag has \<open>TAG_LENGTH\<close> bytes, and the
  ciphertext of \<^verbatim>\<open>crypto.subtle\<close> is that many bytes longer than the data. Encoding a
  string as UTF-8 encodes its well-formed version, so decoding the bytes gives that
  version back, which \<^verbatim>\<open>TextDecoder\<close> hands out without a leading U+FEFF. Base64 can be
  read back, and so can what \<^verbatim>\<open>btoa\<close> makes of a string of bytes. \<^verbatim>\<open>JSON.stringify\<close>
  of an array of bytes is a text of digits, commas and brackets, hence well formed.
\<close>

definition platformContract :: "Platform \<Rightarrow> bool" where
  "platformContract pl =
     ((\<forall>key iv m. gcmDecrypt pl key iv (snd (gcmEncrypt pl key iv m))
                     (fst (gcmEncrypt pl key iv m)) = Some m) \<and>
      (\<forall>key iv m. length (snd (gcmEncrypt pl key iv m)) = TAG_LENGTH) \<and>
      (\<forall>key iv m. subtleDecrypt pl key iv (subtleEncrypt pl key iv m) = Some m) \<and>
      (\<forall>key iv m. length (subtleEncrypt pl key iv m) = length m + TAG_LENGTH) \<and>
      (\<forall>s. utf8Decode pl (utf8Encode pl s) = toWellFormed s) \<and>
      (\<forall>s. textDecoderDecode pl (utf8Encode pl s) = stripBOM (toWellFormed s)) \<and>
      (\<forall>b. base64Decode pl (base64Encode pl b) = b) \<and>
      (\<forall>b. \<exists>encoded. btoa pl (fromCharCode b) = Some encoded \<and>
                       atob pl encoded = Some (fromCharCode b)) \<and>
      (\<forall>b. isWellFormed (jsonStringify pl b)))"

section \<open>Keystore (skills wallet)\<close>

record WalletData =
  wallet_name :: string
  wallet_publicKey :: address
  encryptedSecretKey :: string
  createdAt :: nat

record CreateWalletResult =
  created_success :: bool
  created_address :: address
  created_name :: string

record UnlockWalletResult =
  unlocked_success :: bool
  unlocked_publicKey :: address
  unlocked_secretKey :: string
  secretKeyArray :: "int list"
  unlocked_name :: string


datatype walletError =
    NoWalletError
  | InvalidPasswordError
  | WalletExistsError
  | WeakPasswordError nat

text \<open>
  \<^verbatim>\<open>FileStorage\<close>: one JSON file per key and an index file listing the keys; a missing
  file reads as \<^verbatim>\<open>null\<close>. Every public operation is recorded in \<open>ioLog\<close>.
\<close>

datatype storageOp = StorageGet string | StorageSet string | StorageRemove string

record Disk =
  walletFiles :: "string \<rightharpoonup> WalletData"
  indexFile :: "string list option"
  ioLog :: "storageOp list"

definition loadIndex :: "Disk \<Rightarrow> string list" where
  "loadIndex disk = (case indexFile disk of None \<Rightarrow> [] | Some keys \<Rightarrow> rev (remdups (rev keys)))"

definition storageGet :: "string \<Rightarrow> Disk \<Rightarrow> WalletData option \<times> Disk" where
  "storageGet key disk = (walletFiles disk key, disk\<lparr>ioLog := ioLog disk @ [StorageGet key]\<rparr>)"

definition storageSet :: "string \<Rightarrow> WalletData \<Rightarrow> Disk \<Rightarrow> Disk" where
  "storageSet key v disk =
     disk\<lparr>walletFiles := (walletFiles disk)(key \<mapsto> v),
          indexFile := (if key \<in> set (loadIndex disk) then indexFile disk
                        else Some (loadIndex disk @ [key])),
          ioLog := ioLog disk @ [StorageSet key]\<rparr>"

definition storageRemove :: "string \<Rightarrow> Disk \<Rightarrow> Disk" where
  "storageRemove key disk =
     disk\<lparr>walletFiles := (walletFiles disk)(key := None),
          indexFile := (if key \<in> set (loadIndex disk)
                        then Some (filter (\<lambda>k. k \<noteq> key) (loadIndex disk))
                        else indexFile disk),
          ioLog := ioLog disk @ [StorageRemove key]\<rparr>"

definition WALLET_KEY :: string where "WALLET_KEY = ''solana_wallet''"
definition MIN_PASSWORD_LENGTH :: nat where "MIN_PASSWORD_LENGTH = 8"

text \<open>\<^verbatim>\<open>secretKeyToBase58\<close>: the digits of the big-endian number, then one \<open>1\<close> per leading zero byte.\<close>

definition ALPHABET :: string where
  "ALPHABET = ''123456789ABCDEFGHJKLMNPQRSTUVWXYZabcdefghijkmnopqrstuvwxyz''"

function base58Digits :: "nat \<Rightarrow> string \<Rightarrow> string" where
  "base58Digits num result =
     (if num > 0 then base58Digits (num div 58) ((ALPHABET ! (num mod 58)) # result)
      else result)"
  by pat_completeness auto
termination
  by (relation "measure (\<lambda>(num, result). num)") auto

definition secretKeyToBase58 :: "bytes \<Rightarrow> string" where
  "secretKeyToBase58 key =
     (let num = foldl (\<lambda>n byte. n * 256 + unat byte) 0 key;
          result = base58Digits num []
      in replicate (length (takeWhile (\<lambda>byte. byte = 0) key)) CHR ''1'' @ result)"

definition toUint8Array :: "int list \<Rightarrow> bytes" where
  "toUint8Array numbers = map word_of_int numbers"

text \<open>
  \<^verbatim>\<open>createWallet(name, password)\<close>. \<open>keypairGenerate\<close> stands for
  \<^verbatim>\<open>Keypair.generate()\<close> and \<open>now\<close> for \<^verbatim>\<open>Date.now()\<close>.
\<close>

definition createWallet ::
  "Platform \<Rightarrow> (entropy \<Rightarrow> Keypair \<times> entropy) \<Rightarrow> nat \<Rightarrow> string \<Rightarrow> jsString \<Rightarrow> entropy \<Rightarrow> Disk
     \<Rightarrow> (walletError + CreateWalletResult) \<times> entropy \<times> Disk" where
  "createWallet pl keypairGenerate now name password e disk =
     (if length password < MIN_PASSWORD_LENGTH then
        (Inl (WeakPasswordError MIN_PASSWORD_LENGTH), e, disk)
      else
        (case storageGet WALLET_KEY disk of
           (Some existing, disk1) \<Rightarrow> (Inl WalletExistsError, e, disk1)
         | (None, disk1) \<Rightarrow>
             (case keypairGenerate e of (keypair, e1) \<Rightarrow>
                (let pk = keypair_publicKey keypair;
                     secretKeyJson = jsonStringify pl (secretKey keypair)
                 in case encrypt pl secretKeyJson password e1 of
                      (encrypted, e2) \<Rightarrow>
                        (let walletData = \<lparr>wallet_name = name,
                                            wallet_publicKey = pk,
                                            encryptedSecretKey = encrypted,
                                            createdAt = now\<rparr>
                         in (Inr \<lparr>created_success = True,
                                   created_address = pk,
                                   created_name = name\<rparr>,
                             e2,
                             storageSet WALLET_KEY walletData disk1))))))"

text \<open>
  \<^verbatim>\<open>unlockWallet\<close> and \<^verbatim>\<open>getKeypair\<close>: everything after the lookup runs inside one
  \<^verbatim>\<open>try\<close> whose \<^verbatim>\<open>catch\<close> throws \<^verbatim>\<open>InvalidPasswordError\<close>.
\<close>

definition unlockWallet ::
  "Platform \<Rightarrow> jsString \<Rightarrow> Disk \<Rightarrow> (walletError + UnlockWalletResult) \<times> Disk" where
  "unlockWallet pl password disk =
     (case storageGet WALLET_KEY disk of
        (None, disk1) \<Rightarrow> (Inl NoWalletError, disk1)
      | (Some walletData, disk1) \<Rightarrow>
          (case decrypt pl (encryptedSecretKey walletData) password of
             None \<Rightarrow> (Inl InvalidPasswordError, disk1)
           | Some secretKeyJson \<Rightarrow>
               (case jsonParse pl secretKeyJson of
                  None \<Rightarrow> (Inl InvalidPasswordError, disk1)
                | Some numbers \<Rightarrow>
                    (case keypairFromSecretKey pl (toUint8Array numbers) of
                       None \<Rightarrow> (Inl InvalidPasswordError, disk1)
                     | Some keypair \<Rightarrow>
                         (Inr \<lparr>unlocked_success = True,
                                unlocked_publicKey = keypair_publicKey keypair,
                                unlocked_secretKey = secretKeyToBase58 (toUint8Array numbers),
                                secretKeyArray = numbers,
                                unlocked_name = wallet_name walletData\<rparr>,
                          disk1)))))"

definition getKeypair :: "Platform \<Rightarrow> jsString \<Rightarrow> Disk \<Rightarrow> (walletError + Keypair) \<times> Disk" where
  "getKeypair pl password disk =
     (case storageGet WALLET_KEY disk of
        (None, disk1) \<Rightarrow> (Inl NoWalletError, disk1)
      | (Some walletData, disk1) \<Rightarrow>
          (case decrypt pl (encryptedSecretKey walletData) password of
             None \<Rightarrow> (Inl InvalidPasswordError, disk1)
           | Some secretKeyJson \<Rightarrow>
               (case jsonParse pl secretKeyJson of
                  None \<Rightarrow> (Inl InvalidPasswordError, disk1)
                | Some numbers \<Rightarrow>
                    (case keypairFromSecretKey pl (toUint8Array numbers) of
                       None \<Rightarrow> (Inl InvalidPasswordError, disk1)
                     | Some keypair \<Rightarrow> (Inr keypair, disk1)))))"


section \<open>Vault registry (multisig-storage)\<close>

text \<open>
  The stored data is one JSON object that maps an owner address to the list of that
  owner's vault references. In a browser it is the \<^verbatim>\<open>squads_multisigs\<close> item of
  \<^verbatim>\<open>localStorage\<close>, under Node the file \<^verbatim>\<open>wallet-data/multisigs.json\<close>; a missing item
  or file is \<open>None\<close>. Owners are wallet addresses, which never name a property that a
  JavaScript object inherits, so the object is a map.
\<close>

record StoredMultisig =
  stored_multisigPda :: address
  stored_createKey :: address

type_synonym MultisigStorageData = "address \<rightharpoonup> StoredMultisig list"

record RegistryStore =
  isBrowser :: bool
  localStorageItem :: "MultisigStorageData option"
  storageFile :: "MultisigStorageData option"

definition loadData :: "RegistryStore \<Rightarrow> MultisigStorageData" where
  "loadData st =
     (if isBrowser st then (case localStorageItem st of None \<Rightarrow> Map.empty | Some d \<Rightarrow> d)
      else (case storageFile st of None \<Rightarrow> Map.empty | Some d \<Rightarrow> d))"

definition saveData :: "RegistryStore \<Rightarrow> MultisigStorageData \<Rightarrow> RegistryStore" where
  "saveData st d =
     (if isBrowser st then st\<lparr>localStorageItem := Some d\<rparr> else st\<lparr>storageFile := Some d\<rparr>)"

definition loadDataSync :: "RegistryStore \<Rightarrow> MultisigStorageData" where
  "loadDataSync st =
     (if isBrowser st then (case localStorageItem st of None \<Rightarrow> Map.empty | Some d \<Rightarrow> d)
      else Map.empty)"

definition saveDataSync :: "RegistryStore \<Rightarrow> MultisigStorageData \<Rightarrow> RegistryStore" where
  "saveDataSync st d = (if isBrowser st then st\<lparr>localStorageItem := Some d\<rparr> else st)"

definition ownerEntries :: "MultisigStorageData \<Rightarrow> address \<Rightarrow> StoredMultisig list" where
  "ownerEntries d owner = (case d owner of None \<Rightarrow> [] | Some entries \<Rightarrow> entries)"

definition saveMultisigAddressAsync ::
  "RegistryStore \<Rightarrow> address \<Rightarrow> address \<Rightarrow> address \<Rightarrow> RegistryStore" where
  "saveMultisigAddressAsync st ownerPublicKey pda ckey =
     (let d = loadData st;
          d1 = (case d ownerPublicKey of None \<Rightarrow> d(ownerPublicKey \<mapsto> []) | Some _ \<Rightarrow> d)
      in if \<not> list_ex (\<lambda>m. stored_multisigPda m = pda) (ownerEntries d1 ownerPublicKey) then
           saveData st
             (d1(ownerPublicKey \<mapsto>
                   ownerEntries d1 ownerPublicKey
                     @ [\<lparr>stored_multisigPda = pda, stored_createKey = ckey\<rparr>]))
         else st)"

definition getStoredMultisigsAsync :: "RegistryStore \<Rightarrow> address \<Rightarrow> StoredMultisig list" where
  "getStoredMultisigsAsync st ownerPublicKey = ownerEntries (loadData st) ownerPublicKey"

definition removeStoredMultisigAsync ::
  "RegistryStore \<Rightarrow> address \<Rightarrow> address \<Rightarrow> RegistryStore" where
  "removeStoredMultisigAsync st ownerPublicKey pda =
     (let d = loadData st
      in case d ownerPublicKey of
           Some entries \<Rightarrow>
             saveData st
               (d(ownerPublicKey \<mapsto> filter (\<lambda>m. stored_multisigPda m \<noteq> pda) entries))
         | None \<Rightarrow> st)"

definition saveMultisigAddress ::
  "RegistryStore \<Rightarrow> address \<Rightarrow> address \<Rightarrow> address \<Rightarrow> RegistryStore" where
  "saveMultisigAddress st ownerPublicKey pda ckey =
     (let d = loadDataSync st;
          d1 = (case d ownerPublicKey of None \<Rightarrow> d(ownerPublicKey \<mapsto> []) | Some _ \<Rightarrow> d)
      in if \<not> list_ex (\<lambda>m. stored_multisigPda m = pda) (ownerEntries d1 ownerPublicKey) then
           saveDataSync st
             (d1(ownerPublicKey \<mapsto>
                   ownerEntries d1 ownerPublicKey
                     @ [\<lparr>stored_multisigPda = pda, stored_createKey = ckey\<rparr>]))
         else st)"

definition getStoredMultisigs :: "RegistryStore \<Rightarrow> address \<Rightarrow> StoredMultisig list" where
  "getStoredMultisigs st ownerPublicKey = ownerEntries (loadDataSync st) ownerPublicKey"

definition removeStoredMultisig ::
  "RegistryStore \<Rightarrow> address \<Rightarrow> address \<Rightarrow> RegistryStore" where
  "removeStoredMultisig st ownerPublicKey pda =
     (let d = loadDataSync st
      in case d ownerPublicKey of
           Some entries \<Rightarrow>
             saveDataSync st
               (d(ownerPublicKey \<mapsto> filter (\<lambda>m. stored_multisigPda m \<noteq> pda) entries))
         | None \<Rightarrow> st)"

text \<open>The number of entries the owner's list holds for one vault address.\<close>

definition entriesFor :: "StoredMultisig list \<Rightarrow> address \<Rightarrow> nat" where
  "entriesFor entries pda = length (filter (\<lambda>m. stored_multisigPda m = pda) entries)"

text \<open>
  The stores the registry can be in: an empty one, and whatever the six operations make
  of a store that can be reached.
\<close>

inductive reachable :: "RegistryStore \<Rightarrow> bool" where
  fresh: "reachable \<lparr>isBrowser = b, localStorageItem = None, storageFile = None\<rparr>"
| saveAsync: "reachable st \<Longrightarrow> reachable (saveMultisigAddressAsync st owner pda ckey)"
| removeAsync: "reachable st \<Longrightarrow> reachable (removeStoredMultisigAsync st owner pda)"
| saveSync: "reachable st \<Longrightarrow> reachable (saveMultisigAddress st owner pda ckey)"
| removeSync: "reachable st \<Longrightarrow> reachable (removeStoredMultisig st owner pda)"

section \<open>Importing a vault (import-vault)\<close>

text \<open>
  \<^verbatim>\<open>extractVaultAddress\<close>. The first regular expression is unanchored: the match is the
  leftmost \<^verbatim>\<open>/vault/\<close> that at least 32 base58 characters follow, and the group takes
  as many of them as there are, up to 44. The second one is anchored at both ends.
\<close>

definition isBase58 :: "char \<Rightarrow> bool" where
  "isBase58 c =
     (let n = (of_char c :: nat)
      in (65 \<le> n \<and> n \<le> 72) \<or> (74 \<le> n \<and> n \<le> 78) \<or> (80 \<le> n \<and> n \<le> 90) \<or>
         (97 \<le> n \<and> n \<le> 107) \<or> (109 \<le> n \<and> n \<le> 122) \<or> (49 \<le> n \<and> n \<le> 57))"








section \<open>Sample data and auxiliary notions\<close>

text \<open>
  A chain whose proposals all carry the status tag \<^verbatim>\<open>Executing\<close>, which the SDK's
  status type has beside the six names of \<^verbatim>\<open>ProposalInfo\<close>.
\<close>

definition executingChain :: ChainReader where
  "executingChain =
     \<lparr>fetchMultisig = (\<lambda>pda. None),
      fetchProposal = (\<lambda>pda. Some \<lparr>status_kind = ''Executing'', approved = [], rejected = []\<rparr>),
      getTransactionPda = (\<lambda>pda i. ''tx''),
      getProposalPda = (\<lambda>pda i. ''proposal'')\<rparr>"

text \<open>
  A chain with one vault at transaction index 22 on which only the proposals 2, 5 and
  21 can be fetched.
\<close>

definition sparseChain :: ChainReader where
  "sparseChain =
     \<lparr>fetchMultisig =
        (\<lambda>pda. if pda = ''vault''
               then Some \<lparr>address = [], createKey = ''key'', threshold = 2, members = [],
                          transactionIndex = 22, staleTransactionIndex = 0,
                          rentCollector = None, bump = 255\<rparr>
               else None),
      fetchProposal =
        (\<lambda>pda. if length pda = 2 \<or> length pda = 5 \<or> length pda = 21
               then Some \<lparr>status_kind = ''Active'', approved = [], rejected = []\<rparr>
               else None),
      getTransactionPda = (\<lambda>pda i. replicate i CHR ''t''),
      getProposalPda = (\<lambda>pda i. replicate i CHR ''p'')\<rparr>"

text \<open>The proposals \<^verbatim>\<open>getProposalStatus\<close> returns for a list of indices, in order.\<close>

definition fetched :: "ChainReader \<Rightarrow> address \<Rightarrow> nat list \<Rightarrow> ProposalInfo list" where
  "fetched c pda ks = List.map_filter (\<lambda>k. fst (getProposalStatus c pda k [])) ks"

text \<open>A vault with a member who may not vote and one who may, and an active proposal.\<close>

definition memberB :: MultisigMember where
  "memberB = \<lparr>publicKey = ''B'', permissions = \<lparr>initiate = True, vote = False, execute = True\<rparr>\<rparr>"

definition memberC :: MultisigMember where
  "memberC = \<lparr>publicKey = ''C'', permissions = \<lparr>initiate = False, vote = True, execute = False\<rparr>\<rparr>"

definition demoVault :: MultisigVault where
  "demoVault = \<lparr>address = ''vault'', createKey = ''key'', threshold = 2,
                members = [memberB, memberC],
                transactionIndex = 1, staleTransactionIndex = 0,
                rentCollector = None, bump = 255\<rparr>"

definition activeProposal :: ProposalInfo where
  "activeProposal = \<lparr>index = 1, multisigPda = ''vault'', transactionPda = ''tx'',
                      proposalPda = ''proposal'', status = Active,
                      approvals = [''A''], rejections = []\<rparr>"

text \<open>Three rows of the creation form, two of them with the vote permission.\<close>

definition threeMembers :: "MemberInput list" where
  "threeMembers =
     [\<lparr>input_address = ''A'', input_permissions = \<lparr>initiate = True, vote = True, execute = True\<rparr>\<rparr>,
      \<lparr>input_address = ''B'', input_permissions = \<lparr>initiate = False, vote = True, execute = False\<rparr>\<rparr>,
      \<lparr>input_address = ''C'', input_permissions = \<lparr>initiate = True, vote = False, execute = True\<rparr>\<rparr>]"

definition voterCount :: "MemberInput list \<Rightarrow> nat" where
  "voterCount inputs = length (filter (\<lambda>m. vote (input_permissions m)) inputs)"

text \<open>An empty registry store under Node and one in a browser.\<close>

definition nodeStore :: RegistryStore where
  "nodeStore = \<lparr>isBrowser = False, localStorageItem = None, storageFile = None\<rparr>"

definition browserStore :: RegistryStore where
  "browserStore = \<lparr>isBrowser = True, localStorageItem = None, storageFile = None\<rparr>"

text \<open>
  The invariant of the registry: no owner's list names a vault address twice, in the
  browser item and in the file alike.
\<close>

definition distinctEntries :: "MultisigStorageData \<Rightarrow> bool" where
  "distinctEntries d = (\<forall>owner. distinct (map stored_multisigPda (ownerEntries d owner)))"

definition storeInvariant :: "RegistryStore \<Rightarrow> bool" where
  "storeInvariant st =
     (distinctEntries (case localStorageItem st of None \<Rightarrow> Map.empty | Some d \<Rightarrow> d) \<and>
      distinctEntries (case storageFile st of None \<Rightarrow> Map.empty | Some d \<Rightarrow> d))"











text \<open>The JavaScript string of a text whose characters are all below 256.\<close>

definition codeUnits :: "string \<Rightarrow> jsString" where
  "codeUnits s = map (\<lambda>c. of_nat (of_char c)) s"

text \<open>
  A stand-in platform that satisfies the contract, to run the cipher and the keystore
  on. The key is the encoded password, the tag is the first 16 bytes of the padded key
  and the ciphertext is the plaintext. The text encoding writes every code unit of the
  well-formed version of a string as two bytes, and its \<^verbatim>\<open>TextDecoder\<close> drops a leading
  U+FEFF. Base64 maps bytes to characters one to one, the engine accepts 65536
  arguments in a call, and a secret key is any two bytes. It is no cipher and no UTF-8;
  it only shows that the contract can be met and drives the examples.
\<close>

definition charByte :: "char \<Rightarrow> 8 word" where
  "charByte c = of_nat (of_char c)"

definition byteChar :: "8 word \<Rightarrow> char" where
  "byteChar b = char_of (unat b)"

definition toyTag :: "bytes \<Rightarrow> bytes" where
  "toyTag key = take 16 (key @ replicate 16 0)"

definition unitBytes :: "16 word \<Rightarrow> bytes" where
  "unitBytes u = [of_nat (unat u div 256), of_nat (unat u mod 256)]"

definition toyEncode :: "jsString \<Rightarrow> bytes" where
  "toyEncode s = concat (map unitBytes (toWellFormed s))"

fun toyDecode :: "bytes \<Rightarrow> jsString" where
  "toyDecode (h # l # rest) = of_nat (unat h * 256 + unat l) # toyDecode rest"
| "toyDecode [b] = []"
| "toyDecode [] = []"

definition demoPlatform :: Platform where
  "demoPlatform =
     \<lparr>pbkdf2 = (\<lambda>password salt. toyEncode password),
      gcmEncrypt = (\<lambda>key iv m. (m, toyTag key)),
      gcmDecrypt = (\<lambda>key iv tag c. if tag = toyTag key then Some c else None),
      subtleDeriveKey = (\<lambda>passwordBuffer salt. passwordBuffer),
      subtleEncrypt = (\<lambda>key iv m. m @ toyTag key),
      subtleDecrypt =
        (\<lambda>key iv c. if 16 \<le> length c \<and> drop (length c - 16) c = toyTag key
                    then Some (take (length c - 16) c) else None),
      utf8Encode = toyEncode,
      utf8Decode = toyDecode,
      textDecoderDecode = (\<lambda>b. stripBOM (toyDecode b)),
      base64Encode = map byteChar,
      base64Decode = map charByte,
      btoa = (\<lambda>s. if list_all (\<lambda>u. u < 256) s then Some (map (\<lambda>u. char_of (unat u)) s)
                  else None),
      atob = (\<lambda>t. Some (codeUnits t)),
      maxArguments = 65536,
      jsonStringify = (\<lambda>b. 0x5B # map ucast b),
      jsonParse = (\<lambda>s. case s of [] \<Rightarrow> None
                        | c # cs \<Rightarrow> if c = 0x5B then Some (map uint cs) else None),
      keypairFromSecretKey =
        (\<lambda>b. if length b = 2 then Some \<lparr>keypair_publicKey = map byteChar b, secretKey = b\<rparr>
              else None)\<rparr>"

text \<open>
  An empty disk; a disk whose wallet blob is an authentic encryption, under
  \<^verbatim>\<open>password1\<close>, of a text that is no secret key; a keypair generator for the stand-in
  platform.
\<close>

definition zeroEntropy :: entropy where
  "zeroEntropy = (\<lambda>i. 0)"

definition corruptBlob :: string where
  "corruptBlob =
     fst (encrypt demoPlatform (codeUnits ''not a key'') (codeUnits ''password1'') zeroEntropy)"

definition corruptDisk :: Disk where
  "corruptDisk =
     \<lparr>walletFiles = [WALLET_KEY \<mapsto> \<lparr>wallet_name = ''main'', wallet_publicKey = ''owner'',
                                      encryptedSecretKey = corruptBlob, createdAt = 0\<rparr>],
      indexFile = Some [WALLET_KEY],
      ioLog = []\<rparr>"

definition emptyDisk :: Disk where
  "emptyDisk = \<lparr>walletFiles = Map.empty, indexFile = None, ioLog = []\<rparr>"

definition demoGenerate :: "entropy \<Rightarrow> Keypair \<times> entropy" where
  "demoGenerate e =
     (case randomBytes 2 e of
        (seed, e1) \<Rightarrow> (\<lparr>keypair_publicKey = map byteChar seed, secretKey = seed\<rparr>, e1))"

section \<open>Proposal status classification\<close>

lemma determineStatus_cases:
  "determineStatus ''Active'' = Active"
  "determineStatus ''Approved'' = Approved"
  "determineStatus ''Rejected'' = Rejected"
  "determineStatus ''Executed'' = Executed"
  "determineStatus ''Cancelled'' = Cancelled"
  "determineStatus ''Draft'' = Draft"
  by (simp_all add: determineStatus_def)

lemma determineStatus_other:
  "kind \<notin> {''Active'', ''Approved'', ''Rejected'', ''Executed'', ''Cancelled''}
   \<Longrightarrow> determineStatus kind = Draft"
  by (simp add: determineStatus_def)

lemma getProposalStatus_found:
  "fetchProposal c (getProposalPda c pda i) = Some p \<Longrightarrow>
   map_option status (fst (getProposalStatus c pda i calls)) = Some (determineStatus (status_kind p))"
  by (simp add: getProposalStatus_def)

text \<open>
  Claim C3, as the code has it. The five tags \<^verbatim>\<open>Active\<close>, \<^verbatim>\<open>Approved\<close>,
  \<^verbatim>\<open>Rejected\<close>, \<^verbatim>\<open>Executed\<close> and \<^verbatim>\<open>Cancelled\<close> map to the status of the same
  name; every other tag, recognised or not, maps to \<^verbatim>\<open>Draft\<close>; and whenever the
  proposal account can be fetched, \<^verbatim>\<open>getProposalStatus\<close> returns a proposal with that
  status: no tag makes it fail.
\<close>

theorem classify_defaults_to_Draft:
  "determineStatus ''Active'' = Active \<and>
   determineStatus ''Approved'' = Approved \<and>
   determineStatus ''Rejected'' = Rejected \<and>
   determineStatus ''Executed'' = Executed \<and>
   determineStatus ''Cancelled'' = Cancelled \<and>
   determineStatus ''Draft'' = Draft \<and>
   (kind \<notin> {''Active'', ''Approved'', ''Rejected'', ''Executed'', ''Cancelled''}
      \<longrightarrow> determineStatus kind = Draft) \<and>
   (fetchProposal c (getProposalPda c pda i) = Some p \<longrightarrow>
      map_option status (fst (getProposalStatus c pda i calls))
        = Some (determineStatus (status_kind p)))"
  by (intro conjI impI determineStatus_cases determineStatus_other getProposalStatus_found)

theorem classify_defaults_to_Draft_witness:
  "''Executing'' \<notin> {''Active'', ''Approved'', ''Rejected'', ''Executed'', ''Cancelled''} \<and>
   determineStatus ''Executing'' = Draft \<and>
   fetchProposal executingChain (getProposalPda executingChain ''vault'' 7)
     = Some \<lparr>status_kind = ''Executing'', approved = [], rejected = []\<rparr> \<and>
   map_option status (fst (getProposalStatus executingChain ''vault'' 7 [])) = Some Draft"
proof -
  have a: "''Executing'' \<notin> {''Active'', ''Approved'', ''Rejected'', ''Executed'', ''Cancelled''}"
    by simp
  have b: "fetchProposal executingChain (getProposalPda executingChain ''vault'' 7)
     = Some \<lparr>status_kind = ''Executing'', approved = [], rejected = []\<rparr>"
    by (simp add: executingChain_def)
  from classify_defaults_to_Draft [of "''Executing''" executingChain "''vault''" 7
      "\<lparr>status_kind = ''Executing'', approved = [], rejected = []\<rparr>" "[]"] a b
  show ?thesis by auto
qed

text \<open>
  Claim C3 as stated asks for a failure on an unrecognised tag. The tag
  \<^verbatim>\<open>Executing\<close> and a tag that no program version has both come back as
  \<^verbatim>\<open>Draft\<close>.
\<close>

theorem unknown_status_defaults_counterexample:
  "map_option status (fst (getProposalStatus executingChain ''vault'' 1 [])) = Some Draft \<and>
   determineStatus ''NoSuchStatus'' = Draft"
  by (simp add: getProposalStatus_def executingChain_def determineStatus_def)

section \<open>The window of recent proposals\<close>

lemma getProposalStatus_calls:
  "getProposalStatus c pda k calls =
     (fst (getProposalStatus c pda k []), calls @ [FetchProposal pda k])"
  by (simp add: getProposalStatus_def Let_def split: option.splits)

lemma getProposalStatus_index:
  "fst (getProposalStatus c pda k calls) = Some p \<Longrightarrow> index p = k"
  by (auto simp: getProposalStatus_def Let_def split: option.splits)

lemma getProposalStatus_found_iff:
  "(fst (getProposalStatus c pda k calls) \<noteq> None) = (fetchProposal c (getProposalPda c pda k) \<noteq> None)"
  by (auto simp: getProposalStatus_def Let_def split: option.splits)

lemma fetched_Cons:
  "fetched c pda (k # ks) =
     (case fst (getProposalStatus c pda k []) of None \<Rightarrow> fetched c pda ks
      | Some p \<Rightarrow> p # fetched c pda ks)"
  by (simp add: fetched_def List.map_filter_simps split: option.splits)

lemma fetched_Nil: "fetched c pda [] = []"
  by (simp add: fetched_def List.map_filter_simps)

lemma proposalsLoop_eq:
  "0 \<le> i \<Longrightarrow>
   proposalsLoop c pda i n ps calls =
     (ps @ fetched c pda [nat i ..< nat (n + 1)],
      calls @ map (FetchProposal pda) [nat i ..< nat (n + 1)])"
proof (induction c pda i n ps calls rule: proposalsLoop.induct)
  case (1 c pda i n ps calls)
  show ?case
  proof (cases "i \<le> n")
    case False
    then have "[nat i ..< nat (n + 1)] = []" by simp
    with False show ?thesis by (simp add: fetched_Nil)
  next
    case True
    with "1.prems" have lt: "nat i < nat (n + 1)" by linarith
    from "1.prems" have suc: "nat (i + 1) = Suc (nat i)" by linarith
    have upt: "[nat i ..< nat (n + 1)] = nat i # [nat (i + 1) ..< nat (n + 1)]"
      unfolding suc by (rule upt_conv_Cons[OF lt])
    have st: "getProposalStatus c pda (nat i) calls =
        (fst (getProposalStatus c pda (nat i) []), calls @ [FetchProposal pda (nat i)])"
      by (rule getProposalStatus_calls)
    show ?thesis
    proof (cases "fst (getProposalStatus c pda (nat i) [])")
      case None
      with st have g: "getProposalStatus c pda (nat i) calls = (None, calls @ [FetchProposal pda (nat i)])"
        by simp
      have "proposalsLoop c pda i n ps calls =
            proposalsLoop c pda (i + 1) n ps (calls @ [FetchProposal pda (nat i)])"
        using True g by (subst proposalsLoop.simps) simp
      also have "\<dots> = (ps @ fetched c pda [nat (i + 1) ..< nat (n + 1)],
          (calls @ [FetchProposal pda (nat i)]) @ map (FetchProposal pda) [nat (i + 1) ..< nat (n + 1)])"
        using "1.IH"(1)[OF True g[symmetric] refl] "1.prems" by simp
      finally show ?thesis using upt None by (simp add: fetched_Cons)
    next
      case (Some p)
      with st have g: "getProposalStatus c pda (nat i) calls = (Some p, calls @ [FetchProposal pda (nat i)])"
        by simp
      have "proposalsLoop c pda i n ps calls =
            proposalsLoop c pda (i + 1) n (ps @ [p]) (calls @ [FetchProposal pda (nat i)])"
        using True g by (subst proposalsLoop.simps) simp
      also have "\<dots> = ((ps @ [p]) @ fetched c pda [nat (i + 1) ..< nat (n + 1)],
          (calls @ [FetchProposal pda (nat i)]) @ map (FetchProposal pda) [nat (i + 1) ..< nat (n + 1)])"
        using "1.IH"(2)[OF True g[symmetric] refl] "1.prems" by simp
      finally show ?thesis using upt Some by (simp add: fetched_Cons)
    qed
  qed
qed

lemma getProposals_eq:
  assumes "fetchMultisig c pda = Some acct"
  shows "getProposals c pda calls =
     (rev (fetched c pda [nat (max 1 (int (transactionIndex acct) - 19)) ..< Suc (transactionIndex acct)]),
      calls @ FetchMultisig pda #
        map (FetchProposal pda)
          [nat (max 1 (int (transactionIndex acct) - 19)) ..< Suc (transactionIndex acct)])"
proof -
  have "0 \<le> max 1 (int (transactionIndex acct) - 19)" by simp
  then have "proposalsLoop c pda (max 1 (int (transactionIndex acct) - 19))
          (int (transactionIndex acct)) [] (calls @ [FetchMultisig pda]) =
        ([] @ fetched c pda [nat (max 1 (int (transactionIndex acct) - 19)) ..<
                 nat (int (transactionIndex acct) + 1)],
         (calls @ [FetchMultisig pda]) @ map (FetchProposal pda)
            [nat (max 1 (int (transactionIndex acct) - 19)) ..<
                 nat (int (transactionIndex acct) + 1)])"
    by (rule proposalsLoop_eq)
  moreover have "nat (int (transactionIndex acct) + 1) = Suc (transactionIndex acct)" by simp
  ultimately show ?thesis using assms
    by (simp add: getProposals_def getMultisigAccount_def Let_def del: proposalsLoop.simps)
qed

lemma getProposals_missing:
  "fetchMultisig c pda = None \<Longrightarrow> getProposals c pda calls = ([], calls @ [FetchMultisig pda])"
  by (simp add: getProposals_def getMultisigAccount_def)

lemma map_index_fetched:
  "map index (fetched c pda ks) =
     filter (\<lambda>k. fetchProposal c (getProposalPda c pda k) \<noteq> None) ks"
proof (induction ks)
  case Nil
  show ?case by (simp add: fetched_Nil)
next
  case (Cons k ks)
  show ?case
  proof (cases "fst (getProposalStatus c pda k [])")
    case None
    then have "fetchProposal c (getProposalPda c pda k) = None"
      using getProposalStatus_found_iff[of c pda k "[]"] by simp
    with None Cons show ?thesis by (simp add: fetched_Cons)
  next
    case (Some p)
    then have "fetchProposal c (getProposalPda c pda k) \<noteq> None"
      using getProposalStatus_found_iff[of c pda k "[]"] by simp
    moreover have "index p = k" using Some by (rule getProposalStatus_index)
    ultimately show ?thesis using Some Cons by (simp add: fetched_Cons)
  qed
qed

lemma window_length:
  "length [nat (max 1 (int n - 19)) ..< Suc n] \<le> 20"
proof -
  have "Suc n - nat (max 1 (int n - 19)) \<le> 20" by linarith
  then show ?thesis by (simp only: length_upt)
qed

lemma sorted_desc_rev_filter_upt:
  "sorted_wrt (\<lambda>a b. a > b) (rev (filter P [lo ..< hi]))"
proof -
  have "sorted_wrt (<) (filter P [lo ..< hi])"
    by (rule sorted_wrt_filter) (rule sorted_wrt_upt)
  then show ?thesis by (simp add: sorted_wrt_rev)
qed

text \<open>
  Claim C8. For a vault whose transaction index is \<open>n\<close> (below \<open>2 ^ 53\<close>, where
  JavaScript's numbers are exact), \<^verbatim>\<open>getProposals\<close> requests the vault account and then
  exactly the proposals \<open>max 1 (n - 19), \<dots>, n\<close>, in that order and no others; these are
  at most 20; the list it returns holds the proposals among them that could be fetched,
  and its indices are strictly descending.
\<close>

theorem listRecent_window:
  assumes "fetchMultisig c pda = Some acct" and "transactionIndex acct = n" and "n < 2 ^ 53"
  shows "snd (getProposals c pda []) =
           FetchMultisig pda # map (FetchProposal pda) [nat (max 1 (int n - 19)) ..< Suc n] \<and>
         length [nat (max 1 (int n - 19)) ..< Suc n] \<le> 20 \<and>
         map index (fst (getProposals c pda [])) =
           rev (filter (\<lambda>k. fetchProposal c (getProposalPda c pda k) \<noteq> None)
                  [nat (max 1 (int n - 19)) ..< Suc n]) \<and>
         sorted_wrt (\<lambda>a b. a > b) (map index (fst (getProposals c pda [])))"
proof -
  let ?w = "[nat (max 1 (int n - 19)) ..< Suc n]"
  have eq: "getProposals c pda [] =
      (rev (fetched c pda ?w), [] @ FetchMultisig pda # map (FetchProposal pda) ?w)"
    using getProposals_eq[OF assms(1), of "[]"] assms(2) by simp
  have idx: "map index (fst (getProposals c pda [])) =
      rev (filter (\<lambda>k. fetchProposal c (getProposalPda c pda k) \<noteq> None) ?w)"
    by (simp add: eq rev_map[symmetric] map_index_fetched)
  have "sorted_wrt (\<lambda>a b. a > b) (map index (fst (getProposals c pda [])))"
    unfolding idx by (rule sorted_desc_rev_filter_upt)
  with eq idx window_length[of n] show ?thesis by simp
qed

theorem listRecent_window_witness:
  "fetchMultisig sparseChain ''vault'' \<noteq> None \<and>
   transactionIndex (the (fetchMultisig sparseChain ''vault'')) = 22 \<and>
   (22 :: nat) < 2 ^ 53 \<and>
   snd (getProposals sparseChain ''vault'' []) =
     FetchMultisig ''vault'' # map (FetchProposal ''vault'') [3 ..< 23] \<and>
   map index (fst (getProposals sparseChain ''vault'' [])) = [21, 5]"
proof -
  have a: "fetchMultisig sparseChain ''vault'' =
      Some \<lparr>address = [], createKey = ''key'', threshold = 2, members = [],
            transactionIndex = 22, staleTransactionIndex = 0,
            rentCollector = None, bump = 255\<rparr>"
    by (simp add: sparseChain_def)
  have b: "transactionIndex \<lparr>address = [], createKey = ''key'', threshold = 2, members = [],
            transactionIndex = 22, staleTransactionIndex = 0,
            rentCollector = None, bump = 255\<rparr> = 22" by simp
  have c: "(22 :: nat) < 2 ^ 53" by simp
  have w: "[nat (max 1 (int 22 - 19)) ..< Suc 22] = [3 ..< 23]" by simp
  have f: "filter (\<lambda>k. fetchProposal sparseChain (getProposalPda sparseChain ''vault'' k) \<noteq> None)
             [3 ..< 23] = [5, 21]"
    by (simp add: sparseChain_def upt_rec_numeral)
  from listRecent_window[OF a b c] show ?thesis
    unfolding w f using a c by simp
qed

section \<open>Who may vote\<close>

lemma userPermissions_member:
  "find (\<lambda>x. publicKey x = u) (members v) = Some m \<Longrightarrow>
   userPermissions (Some v) u = Some (permissions m)"
  by (simp add: userPermissions_def)

lemma getUserPermissions_member:
  "find (\<lambda>x. publicKey x = u) (members v) = Some m \<Longrightarrow>
   getUserPermissions (Some u) (Some v) = Some (permissions m)"
  by (simp add: getUserPermissions_def)

lemma hasUserVoted_None:
  "(hasUserVoted (Some u) p = None) = (u \<notin> set (approvals p) \<and> u \<notin> set (rejections p))"
  by (simp add: hasUserVoted_def)

lemma voteButtonsShown_member:
  assumes "find (\<lambda>x. publicKey x = publicKey m) (members v) = Some m"
  shows "voteButtonsShown (Some v) (publicKey m) p = canVote_spec p m"
  using userPermissions_member[OF assms]
  by (auto simp: voteButtonsShown_def canVote_spec_def hasVoted_def)

lemma externalVoteButtonsShown_member:
  assumes "find (\<lambda>x. publicKey x = publicKey m) (members v) = Some m"
  shows "externalVoteButtonsShown (Some (publicKey m)) (Some v) p = canVote_spec p m"
  using getUserPermissions_member[OF assms] hasUserVoted_None[of "publicKey m" p]
  by (auto simp: externalVoteButtonsShown_def canVote_spec_def canUserVote_def)

lemma voted_hides_buttons:
  assumes "u \<in> set (approvals p) \<or> u \<in> set (rejections p)"
  shows "\<not> voteButtonsShown vault u p" and "\<not> externalVoteButtonsShown (Some u) vault p"
  using assms hasUserVoted_None[of u p]
  by (auto simp: voteButtonsShown_def hasVoted_def externalVoteButtonsShown_def)

lemma stranger_no_buttons:
  assumes "find (\<lambda>x. publicKey x = u) (members v) = None"
  shows "\<not> voteButtonsShown (Some v) u p" and "\<not> externalVoteButtonsShown (Some u) (Some v) p"
  using assms
  by (simp_all add: voteButtonsShown_def userPermissions_def externalVoteButtonsShown_def
      canUserVote_def getUserPermissions_def)

lemma approvePreChecks_pass:
  "approvePreChecks p u = Inr () \<Longrightarrow> status p = Active \<and> u \<notin> set (approvals p)"
  by (simp add: approvePreChecks_def split: if_splits)

lemma approvePreChecks_fail:
  "status p \<noteq> Active \<Longrightarrow> approvePreChecks p u = Inl (PROPOSAL_NOT_ACTIVE (status p))"
  "status p = Active \<Longrightarrow> u \<in> set (approvals p) \<Longrightarrow> approvePreChecks p u = Inl ALREADY_APPROVED"
  by (simp_all add: approvePreChecks_def)

text \<open>
  Claim C4, as the code has it. For a member \<open>m\<close> listed in the vault, both web views
  offer the vote buttons exactly when the proposal is Active, \<open>m\<close> has the vote
  permission and \<open>m\<close>'s address is in neither vote list; so a member found in
  \<^verbatim>\<open>approvals\<close> or in \<^verbatim>\<open>rejections\<close> is offered no vote, and neither is a user who
  is not listed in the vault. The approve command of the CLI passes its local checks only
  if the proposal is Active and the address is not in \<^verbatim>\<open>approvals\<close>; it reports
  \<^verbatim>\<open>PROPOSAL_NOT_ACTIVE\<close> and \<^verbatim>\<open>ALREADY_APPROVED\<close> otherwise and never looks at the
  permissions.
\<close>

theorem vote_gates:
  assumes "find (\<lambda>x. publicKey x = publicKey m) (members v) = Some m"
  shows "voteButtonsShown (Some v) (publicKey m) p = canVote_spec p m \<and>
         externalVoteButtonsShown (Some (publicKey m)) (Some v) p = canVote_spec p m \<and>
         (publicKey m \<in> set (approvals p) \<or> publicKey m \<in> set (rejections p) \<longrightarrow>
            \<not> voteButtonsShown (Some v) (publicKey m) p \<and>
            \<not> externalVoteButtonsShown (Some (publicKey m)) (Some v) p) \<and>
         (approvePreChecks p (publicKey m) = Inr () \<longrightarrow>
            status p = Active \<and> publicKey m \<notin> set (approvals p)) \<and>
         (status p \<noteq> Active \<longrightarrow>
            approvePreChecks p (publicKey m) = Inl (PROPOSAL_NOT_ACTIVE (status p))) \<and>
         (status p = Active \<and> publicKey m \<in> set (approvals p) \<longrightarrow>
            approvePreChecks p (publicKey m) = Inl ALREADY_APPROVED) \<and>
         (find (\<lambda>x. publicKey x = u) (members v) = None \<longrightarrow>
            \<not> voteButtonsShown (Some v) u p \<and>
            \<not> externalVoteButtonsShown (Some u) (Some v) p)"
  using voteButtonsShown_member[OF assms] externalVoteButtonsShown_member[OF assms]
    voted_hides_buttons[of "publicKey m" p "Some v"] approvePreChecks_pass[of p "publicKey m"]
    approvePreChecks_fail[of p "publicKey m"] stranger_no_buttons[of u v p]
  by blast

theorem vote_gates_witness:
  "find (\<lambda>x. publicKey x = publicKey memberC) (members demoVault) = Some memberC \<and>
   voteButtonsShown (Some demoVault) ''C'' activeProposal \<and>
   externalVoteButtonsShown (Some ''C'') (Some demoVault) activeProposal \<and>
   canVote_spec activeProposal memberC \<and>
   approvePreChecks activeProposal ''C'' = Inr ()"
proof -
  have f: "find (\<lambda>x. publicKey x = publicKey memberC) (members demoVault) = Some memberC"
    by (simp add: demoVault_def memberB_def memberC_def)
  have c: "canVote_spec activeProposal memberC"
    by (simp add: canVote_spec_def activeProposal_def memberC_def)
  have k: "publicKey memberC = ''C''" by (simp add: memberC_def)
  have a: "approvePreChecks activeProposal ''C'' = Inr ()"
    by (simp add: approvePreChecks_def activeProposal_def)
  from vote_gates[OF f, of activeProposal] c f a show ?thesis
    unfolding k by simp
qed

text \<open>
  Claim C4 as stated makes the vote permission necessary everywhere. Member \<open>B\<close> of
  the sample vault has no vote permission, and the approve command's checks pass for
  \<open>B\<close> on an active proposal.
\<close>

theorem cli_approve_ignores_permission_counterexample:
  "find (\<lambda>x. publicKey x = ''B'') (members demoVault) = Some memberB \<and>
   \<not> vote (permissions memberB) \<and>
   \<not> canVote_spec activeProposal memberB \<and>
   approvePreChecks activeProposal ''B'' = Inr ()"
  by (simp add: demoVault_def memberB_def memberC_def canVote_spec_def activeProposal_def
      approvePreChecks_def)

section \<open>Vault creation: members and threshold\<close>

lemma thresholdCheck_iff:
  "(thresholdCheck inputs t = Inr ()) = (1 \<le> t \<and> t \<le> int (voterCount inputs))"
  by (simp add: thresholdCheck_def voterCount_def Let_def not_less)

lemma thresholdCheck_error:
  "\<not> (1 \<le> t \<and> t \<le> int (voterCount inputs)) \<Longrightarrow>
   thresholdCheck inputs t = Inl (ThresholdOutOfRange (voterCount inputs))"
  by (simp add: thresholdCheck_def voterCount_def Let_def not_le)

lemma handleCreate_threshold:
  assumes "validateMemberInputs isPk inputs [] = Inr vm"
  shows "(handleCreate (Some w) isPk inputs t = Inr (vm, t)) = (1 \<le> t \<and> t \<le> int (voterCount inputs))"
proof (cases "thresholdCheck inputs t")
  case (Inl e)
  then have "\<not> (1 \<le> t \<and> t \<le> int (voterCount inputs))"
    using thresholdCheck_iff[of inputs t] by simp
  moreover have "handleCreate (Some w) isPk inputs t = Inl e"
    using assms Inl by (simp add: handleCreate_def)
  ultimately show ?thesis by simp
next
  case (Inr u)
  then have "1 \<le> t \<and> t \<le> int (voterCount inputs)"
    using thresholdCheck_iff[of inputs t] by simp
  moreover have "handleCreate (Some w) isPk inputs t = Inr (vm, t)"
    using assms Inr by (simp add: handleCreate_def)
  ultimately show ?thesis by simp
qed

lemma handleCreate_threshold_error:
  assumes "validateMemberInputs isPk inputs [] = Inr vm"
    and "\<not> (1 \<le> t \<and> t \<le> int (voterCount inputs))"
  shows "handleCreate (Some w) isPk inputs t = Inl (ThresholdOutOfRange (voterCount inputs))"
  using assms thresholdCheck_error[of t inputs] by (simp add: handleCreate_def)



lemma cli_members_all_vote:
  "length (filter (\<lambda>m. vote (permissions m))
      (map (\<lambda>addr. \<lparr>publicKey = addr, permissions = getAllPermissions\<rparr>) addrs)) = length addrs"
  by (induction addrs) (simp_all add: getAllPermissions_def)

lemma createMultisigConfig_ok:
  assumes "parseMembers isPk creator arg = Inr addrs"
  shows "createMultisigConfig isPk creator arg thr =
           (if finalThreshold thr (length addrs) > int (length addrs)
            then Inl (INVALID_THRESHOLD_exceeds (finalThreshold thr (length addrs)) (length addrs))
            else if finalThreshold thr (length addrs) < 1
            then Inl (INVALID_THRESHOLD_below (finalThreshold thr (length addrs)))
            else Inr (map (\<lambda>addr. \<lparr>publicKey = addr, permissions = getAllPermissions\<rparr>) addrs,
                      finalThreshold thr (length addrs)))"
  using assms by (simp add: createMultisigConfig_def Let_def)






text \<open>
  Claim C5. The threshold check of the creation form succeeds exactly when
  \<open>1 \<le> t\<close> and \<open>t\<close> is at most the number of rows with the vote permission, and fails
  with the out-of-range error otherwise; once the member rows are valid, the form submits
  exactly under that condition. In the CLI every member gets all permissions, and the
  command accepts exactly the thresholds between 1 and the number of members. With three
  members of which two may vote, 2 is accepted and 3 is refused.
\<close>

theorem threshold_validation:
  "(thresholdCheck inputs t = Inr ()) = (1 \<le> t \<and> t \<le> int (voterCount inputs)) \<and>
   (\<not> (1 \<le> t \<and> t \<le> int (voterCount inputs)) \<longrightarrow>
      thresholdCheck inputs t = Inl (ThresholdOutOfRange (voterCount inputs))) \<and>
   (validateMemberInputs isPk inputs [] = Inr vm \<longrightarrow>
      (handleCreate (Some w) isPk inputs t = Inr (vm, t))
        = (1 \<le> t \<and> t \<le> int (voterCount inputs))) \<and>
   (parseMembers isPk creator arg = Inr addrs \<longrightarrow>
      (\<exists>ms. createMultisigConfig isPk creator arg thr = Inr (ms, finalThreshold thr (length addrs)) \<and>
            length (filter (\<lambda>m. vote (permissions m)) ms) = length addrs)
        = (1 \<le> finalThreshold thr (length addrs) \<and>
           finalThreshold thr (length addrs) \<le> int (length addrs))) \<and>
   voterCount threeMembers = 2 \<and>
   thresholdCheck threeMembers 2 = Inr () \<and>
   thresholdCheck threeMembers 3 = Inl (ThresholdOutOfRange 2)"
proof (intro conjI impI)
  show "(thresholdCheck inputs t = Inr ()) = (1 \<le> t \<and> t \<le> int (voterCount inputs))"
    by (rule thresholdCheck_iff)
  show "thresholdCheck inputs t = Inl (ThresholdOutOfRange (voterCount inputs))"
    if "\<not> (1 \<le> t \<and> t \<le> int (voterCount inputs))"
    using that by (rule thresholdCheck_error)
  show "(handleCreate (Some w) isPk inputs t = Inr (vm, t))
        = (1 \<le> t \<and> t \<le> int (voterCount inputs))"
    if "validateMemberInputs isPk inputs [] = Inr vm"
    using that by (rule handleCreate_threshold)
  show "(\<exists>ms. createMultisigConfig isPk creator arg thr = Inr (ms, finalThreshold thr (length addrs)) \<and>
            length (filter (\<lambda>m. vote (permissions m)) ms) = length addrs)
        = (1 \<le> finalThreshold thr (length addrs) \<and>
           finalThreshold thr (length addrs) \<le> int (length addrs))"
    if "parseMembers isPk creator arg = Inr addrs"
    using createMultisigConfig_ok[OF that, of thr] cli_members_all_vote[of addrs]
    by (auto split: if_splits)
  show v: "voterCount threeMembers = 2"
    by (simp add: voterCount_def threeMembers_def)
  show "thresholdCheck threeMembers 2 = Inr ()"
    using thresholdCheck_iff[of threeMembers 2] v by simp
  show "thresholdCheck threeMembers 3 = Inl (ThresholdOutOfRange 2)"
    using thresholdCheck_error[of 3 threeMembers] v by simp
qed

theorem threshold_validation_witness:
  "validateMemberInputs (\<lambda>s. True) threeMembers [] =
     Inr (map (\<lambda>i. \<lparr>publicKey = input_address i, permissions = input_permissions i\<rparr>) threeMembers) \<and>
   handleCreate (Some ''A'') (\<lambda>s. True) threeMembers 2 =
     Inr (map (\<lambda>i. \<lparr>publicKey = input_address i, permissions = input_permissions i\<rparr>) threeMembers, 2) \<and>
   thresholdCheck threeMembers 0 = Inl (ThresholdOutOfRange 2) \<and>
   parseMembers (\<lambda>s. True) ''A'' ''B,C'' = Inr [''A'', ''B'', ''C''] \<and>
   (\<exists>ms. createMultisigConfig (\<lambda>s. True) ''A'' ''B,C'' (Some 3) = Inr (ms, 3))"
proof -
  have tr: "trim ''A'' = ''A''" "trim ''B'' = ''B''" "trim ''C'' = ''C''"
    by (simp_all add: trim_def isWhiteSpace_def)
  have a: "validateMemberInputs (\<lambda>s. True) threeMembers [] =
     Inr (map (\<lambda>i. \<lparr>publicKey = input_address i, permissions = input_permissions i\<rparr>) threeMembers)"
    by (simp add: threeMembers_def tr)
  have p: "parseMembers (\<lambda>s. True) ''A'' ''B,C'' = Inr [''A'', ''B'', ''C'']"
    by (simp add: parseMembers_def tr setAdd_def)
  have f: "finalThreshold (Some 3) (length [''A'', ''B'', ''C'']) = 3"
    by (simp add: finalThreshold_def)
  have n: "\<not> (1 \<le> (0::int) \<and> (0::int) \<le> int (voterCount threeMembers))" by simp
  note t = threshold_validation[of threeMembers _ "\<lambda>s. True" _ "''A''" "''A''" "''B,C''"
      "[''A'', ''B'', ''C'']" "Some 3"]
  have v: "voterCount threeMembers = 2" using t[of 2] by blast
  have h: "handleCreate (Some ''A'') (\<lambda>s. True) threeMembers 2 =
     Inr (map (\<lambda>i. \<lparr>publicKey = input_address i, permissions = input_permissions i\<rparr>) threeMembers, 2)"
    using t[of 2] a v by simp
  have z: "thresholdCheck threeMembers 0 = Inl (ThresholdOutOfRange 2)"
    using t[of 0] n v by simp
  have c: "\<exists>ms. createMultisigConfig (\<lambda>s. True) ''A'' ''B,C'' (Some 3) = Inr (ms, 3)"
    using t[of 2] p f by auto
  from a h z p c show ?thesis by blast
qed



section \<open>Vault registry: registration is idempotent\<close>

lemma loadData_saveData [simp]: "loadData (saveData st d) = d"
  by (simp add: loadData_def saveData_def)

lemma isBrowser_saveData [simp]: "isBrowser (saveData st d) = isBrowser st"
  by (simp add: saveData_def)

lemma loadDataSync_browser: "isBrowser st \<Longrightarrow> loadDataSync st = loadData st"
  by (simp add: loadDataSync_def loadData_def)

lemma saveDataSync_browser: "isBrowser st \<Longrightarrow> saveDataSync st d = saveData st d"
  by (simp add: saveDataSync_def saveData_def)

lemma ownerEntries_upd:
  "ownerEntries (d(owner \<mapsto> es)) owner' = (if owner' = owner then es else ownerEntries d owner')"
  by (simp add: ownerEntries_def)

lemma saveMultisigAddressAsync_eq:
  "saveMultisigAddressAsync st owner pda ckey =
     (if list_ex (\<lambda>m. stored_multisigPda m = pda) (ownerEntries (loadData st) owner) then st
      else saveData st ((loadData st)(owner \<mapsto>
             ownerEntries (loadData st) owner
               @ [\<lparr>stored_multisigPda = pda, stored_createKey = ckey\<rparr>])))"
  by (cases "loadData st owner")
     (simp_all add: saveMultisigAddressAsync_def Let_def ownerEntries_def)

lemma saveMultisigAddress_eq:
  "saveMultisigAddress st owner pda ckey =
     (if list_ex (\<lambda>m. stored_multisigPda m = pda) (ownerEntries (loadDataSync st) owner) then st
      else saveDataSync st ((loadDataSync st)(owner \<mapsto>
             ownerEntries (loadDataSync st) owner
               @ [\<lparr>stored_multisigPda = pda, stored_createKey = ckey\<rparr>])))"
  by (cases "loadDataSync st owner")
     (simp_all add: saveMultisigAddress_def Let_def ownerEntries_def)

lemma saveMultisigAddress_browser:
  "isBrowser st \<Longrightarrow>
   saveMultisigAddress st owner pda ckey = saveMultisigAddressAsync st owner pda ckey"
  by (simp add: saveMultisigAddress_eq saveMultisigAddressAsync_eq loadDataSync_browser
      saveDataSync_browser)

lemma getStoredMultisigs_browser:
  "isBrowser st \<Longrightarrow> getStoredMultisigs st owner = getStoredMultisigsAsync st owner"
  by (simp add: getStoredMultisigs_def getStoredMultisigsAsync_def loadDataSync_browser)

lemma saveMultisigAddress_node:
  "\<not> isBrowser st \<Longrightarrow> saveMultisigAddress st owner pda ckey = st"
  by (simp add: saveMultisigAddress_eq saveDataSync_def)

lemma getStoredMultisigs_node:
  "\<not> isBrowser st \<Longrightarrow> getStoredMultisigs st owner = []"
  by (simp add: getStoredMultisigs_def loadDataSync_def ownerEntries_def)

lemma entriesFor_present:
  "(0 < entriesFor es pda) = list_ex (\<lambda>m. stored_multisigPda m = pda) es"
  by (induction es) (auto simp: entriesFor_def)

lemma entriesFor_append:
  "entriesFor (es @ [\<lparr>stored_multisigPda = pda, stored_createKey = ckey\<rparr>]) pda
     = Suc (entriesFor es pda)"
  by (simp add: entriesFor_def)

lemma stored_after_save:
  "getStoredMultisigsAsync (saveMultisigAddressAsync st owner pda ckey) owner =
     (if list_ex (\<lambda>m. stored_multisigPda m = pda) (getStoredMultisigsAsync st owner)
      then getStoredMultisigsAsync st owner
      else getStoredMultisigsAsync st owner
             @ [\<lparr>stored_multisigPda = pda, stored_createKey = ckey\<rparr>])"
  by (simp add: saveMultisigAddressAsync_eq getStoredMultisigsAsync_def ownerEntries_upd)

lemma save_twice:
  "saveMultisigAddressAsync (saveMultisigAddressAsync st owner pda ckey) owner pda ckey
     = saveMultisigAddressAsync st owner pda ckey"
proof -
  have "list_ex (\<lambda>m. stored_multisigPda m = pda)
          (getStoredMultisigsAsync (saveMultisigAddressAsync st owner pda ckey) owner)"
    by (simp add: stored_after_save)
  then show ?thesis
    by (subst saveMultisigAddressAsync_eq) (simp add: getStoredMultisigsAsync_def)
qed

lemma entries_after_save:
  "entriesFor (getStoredMultisigsAsync (saveMultisigAddressAsync st owner pda ckey) owner) pda
     = max 1 (entriesFor (getStoredMultisigsAsync st owner) pda)"
proof (cases "list_ex (\<lambda>m. stored_multisigPda m = pda) (getStoredMultisigsAsync st owner)")
  case True
  then have "0 < entriesFor (getStoredMultisigsAsync st owner) pda"
    by (simp add: entriesFor_present)
  with True show ?thesis by (simp add: stored_after_save)
next
  case False
  then have "entriesFor (getStoredMultisigsAsync st owner) pda = 0"
    using entriesFor_present[of "getStoredMultisigsAsync st owner" pda] by simp
  with False show ?thesis by (simp add: stored_after_save entriesFor_append)
qed

lemma entriesFor_absent:
  "pda \<notin> stored_multisigPda ` set es \<Longrightarrow> entriesFor es pda = 0"
  by (induction es) (auto simp: entriesFor_def)

lemma entriesFor_Cons:
  "entriesFor (e # es) pda =
     (if stored_multisigPda e = pda then Suc (entriesFor es pda) else entriesFor es pda)"
  by (simp add: entriesFor_def)

lemma entriesFor_distinct:
  "distinct (map stored_multisigPda es) \<Longrightarrow> entriesFor es pda \<le> 1"
proof (induction es)
  case Nil
  show ?case by (simp add: entriesFor_def)
next
  case (Cons e es)
  then have ih: "entriesFor es pda \<le> 1" and
    fresh: "stored_multisigPda e \<notin> stored_multisigPda ` set es"
    by simp_all
  show ?case
  proof (cases "stored_multisigPda e = pda")
    case True
    with fresh have "entriesFor es pda = 0" by (simp add: entriesFor_absent)
    with True show ?thesis by (simp add: entriesFor_Cons)
  next
    case False
    with ih show ?thesis by (simp add: entriesFor_Cons)
  qed
qed

lemma distinctEntries_empty: "distinctEntries Map.empty"
  by (simp add: distinctEntries_def ownerEntries_def)

lemma distinctEntries_add:
  assumes "distinctEntries d"
    and "\<not> list_ex (\<lambda>m. stored_multisigPda m = pda) (ownerEntries d owner)"
  shows "distinctEntries (d(owner \<mapsto> ownerEntries d owner
            @ [\<lparr>stored_multisigPda = pda, stored_createKey = ckey\<rparr>]))"
  using assms by (auto simp: distinctEntries_def ownerEntries_upd list_ex_iff)

lemma distinctEntries_filter:
  assumes "distinctEntries d" and "d owner = Some es"
  shows "distinctEntries (d(owner \<mapsto> filter P es))"
proof -
  from assms have "distinct (map stored_multisigPda es)"
    by (auto simp: distinctEntries_def ownerEntries_def dest: spec[of _ owner])
  then have "distinct (map stored_multisigPda (filter P es))"
    by (rule distinct_map_filter)
  with assms(1) show ?thesis
    by (auto simp: distinctEntries_def ownerEntries_upd)
qed

lemma storeInvariant_loadData: "storeInvariant st \<Longrightarrow> distinctEntries (loadData st)"
  by (simp add: storeInvariant_def loadData_def)

lemma storeInvariant_loadDataSync: "storeInvariant st \<Longrightarrow> distinctEntries (loadDataSync st)"
  by (simp add: storeInvariant_def loadDataSync_def distinctEntries_empty)

lemma storeInvariant_saveData:
  "storeInvariant st \<Longrightarrow> distinctEntries d \<Longrightarrow> storeInvariant (saveData st d)"
  by (simp add: storeInvariant_def saveData_def)

lemma storeInvariant_saveDataSync:
  "storeInvariant st \<Longrightarrow> distinctEntries d \<Longrightarrow> storeInvariant (saveDataSync st d)"
  by (simp add: storeInvariant_def saveDataSync_def)

lemma storeInvariant_saveAsync:
  assumes "storeInvariant st"
  shows "storeInvariant (saveMultisigAddressAsync st owner pda ckey)"
  using assms storeInvariant_saveData[OF assms distinctEntries_add[OF storeInvariant_loadData[OF assms]]]
  by (simp add: saveMultisigAddressAsync_eq)

lemma storeInvariant_saveSync:
  assumes "storeInvariant st"
  shows "storeInvariant (saveMultisigAddress st owner pda ckey)"
  using assms storeInvariant_saveDataSync[OF assms distinctEntries_add[OF storeInvariant_loadDataSync[OF assms]]]
  by (simp add: saveMultisigAddress_eq)

lemma storeInvariant_removeAsync:
  assumes "storeInvariant st"
  shows "storeInvariant (removeStoredMultisigAsync st owner pda)"
proof (cases "loadData st owner")
  case None
  with assms show ?thesis by (simp add: removeStoredMultisigAsync_def)
next
  case (Some es)
  from distinctEntries_filter[OF storeInvariant_loadData[OF assms] Some]
  have "distinctEntries ((loadData st)(owner \<mapsto> filter (\<lambda>m. stored_multisigPda m \<noteq> pda) es))" .
  from storeInvariant_saveData[OF assms this] Some show ?thesis
    by (simp add: removeStoredMultisigAsync_def)
qed

lemma storeInvariant_removeSync:
  assumes "storeInvariant st"
  shows "storeInvariant (removeStoredMultisig st owner pda)"
proof (cases "loadDataSync st owner")
  case None
  with assms show ?thesis by (simp add: removeStoredMultisig_def)
next
  case (Some es)
  from distinctEntries_filter[OF storeInvariant_loadDataSync[OF assms] Some]
  have "distinctEntries ((loadDataSync st)(owner \<mapsto> filter (\<lambda>m. stored_multisigPda m \<noteq> pda) es))" .
  from storeInvariant_saveDataSync[OF assms this] Some show ?thesis
    by (simp add: removeStoredMultisig_def)
qed

lemma reachable_invariant: "reachable st \<Longrightarrow> storeInvariant st"
proof (induction rule: reachable.induct)
  case (fresh b)
  show ?case by (simp add: storeInvariant_def distinctEntries_empty)
next
  case (saveAsync st owner pda ckey)
  then show ?case by (simp add: storeInvariant_saveAsync)
next
  case (removeAsync st owner pda)
  then show ?case by (simp add: storeInvariant_removeAsync)
next
  case (saveSync st owner pda ckey)
  then show ?case by (simp add: storeInvariant_saveSync)
next
  case (removeSync st owner pda)
  then show ?case by (simp add: storeInvariant_removeSync)
qed

lemma reachable_at_most_one:
  assumes "reachable st"
  shows "entriesFor (getStoredMultisigsAsync st owner) pda \<le> 1"
proof -
  from storeInvariant_loadData[OF reachable_invariant[OF assms]]
  have "distinct (map stored_multisigPda (ownerEntries (loadData st) owner))"
    by (simp add: distinctEntries_def)
  then show ?thesis unfolding getStoredMultisigsAsync_def by (rule entriesFor_distinct)
qed

lemma register_once_async:
  assumes "reachable st"
  shows "entriesFor (getStoredMultisigsAsync (saveMultisigAddressAsync st owner pda ckey) owner) pda = 1"
  using reachable_at_most_one[OF assms, of owner pda] entries_after_save[of st owner pda ckey]
  by simp

text \<open>
  Claim C6, as the code has it. In every store the registry can reach, registering
  \<open>(owner, pda, ckey)\<close> twice through \<^verbatim>\<open>saveMultisigAddressAsync\<close> leaves exactly one
  entry for \<open>pda\<close> in the owner's list, and the second registration changes nothing. The
  synchronous \<^verbatim>\<open>saveMultisigAddress\<close> does the same in a browser; outside a browser it
  stores nothing and \<^verbatim>\<open>getStoredMultisigs\<close> is always empty.
\<close>

theorem register_idempotent:
  assumes "reachable st"
  shows "entriesFor (getStoredMultisigsAsync
             (saveMultisigAddressAsync (saveMultisigAddressAsync st owner pda ckey) owner pda ckey)
             owner) pda = 1 \<and>
         saveMultisigAddressAsync (saveMultisigAddressAsync st owner pda ckey) owner pda ckey
           = saveMultisigAddressAsync st owner pda ckey \<and>
         (isBrowser st \<longrightarrow>
            entriesFor (getStoredMultisigs
                (saveMultisigAddress (saveMultisigAddress st owner pda ckey) owner pda ckey)
                owner) pda = 1 \<and>
            saveMultisigAddress (saveMultisigAddress st owner pda ckey) owner pda ckey
              = saveMultisigAddress st owner pda ckey) \<and>
         (\<not> isBrowser st \<longrightarrow>
            saveMultisigAddress st owner pda ckey = st \<and> getStoredMultisigs st owner = [])"
proof (intro conjI impI)
  show a: "saveMultisigAddressAsync (saveMultisigAddressAsync st owner pda ckey) owner pda ckey
           = saveMultisigAddressAsync st owner pda ckey"
    by (rule save_twice)
  show b: "entriesFor (getStoredMultisigsAsync
             (saveMultisigAddressAsync (saveMultisigAddressAsync st owner pda ckey) owner pda ckey)
             owner) pda = 1"
    unfolding a by (rule register_once_async[OF assms])
  {
    assume br: "isBrowser st"
    then have br1: "isBrowser (saveMultisigAddressAsync st owner pda ckey)"
      by (simp add: saveMultisigAddressAsync_eq)
    have s1: "saveMultisigAddress st owner pda ckey = saveMultisigAddressAsync st owner pda ckey"
      using br by (rule saveMultisigAddress_browser)
    have s2: "saveMultisigAddress (saveMultisigAddressAsync st owner pda ckey) owner pda ckey
        = saveMultisigAddressAsync (saveMultisigAddressAsync st owner pda ckey) owner pda ckey"
      using br1 by (rule saveMultisigAddress_browser)
    show "saveMultisigAddress (saveMultisigAddress st owner pda ckey) owner pda ckey
              = saveMultisigAddress st owner pda ckey"
      unfolding s1 s2 by (rule a)
    have br2: "isBrowser (saveMultisigAddressAsync
        (saveMultisigAddressAsync st owner pda ckey) owner pda ckey)"
      unfolding a by (rule br1)
    show "entriesFor (getStoredMultisigs
                (saveMultisigAddress (saveMultisigAddress st owner pda ckey) owner pda ckey)
                owner) pda = 1"
      unfolding s1 s2 getStoredMultisigs_browser[OF br2] by (rule b)
  }
  {
    assume "\<not> isBrowser st"
    then show "saveMultisigAddress st owner pda ckey = st" "getStoredMultisigs st owner = []"
      by (simp_all add: saveMultisigAddress_node getStoredMultisigs_node)
  }
qed

theorem register_idempotent_witness:
  "reachable browserStore \<and> isBrowser browserStore \<and>
   getStoredMultisigsAsync
     (saveMultisigAddressAsync (saveMultisigAddressAsync browserStore ''owner'' ''vault'' ''key'')
        ''owner'' ''vault'' ''key'') ''owner''
     = [\<lparr>stored_multisigPda = ''vault'', stored_createKey = ''key''\<rparr>] \<and>
   entriesFor (getStoredMultisigs
       (saveMultisigAddress (saveMultisigAddress browserStore ''owner'' ''vault'' ''key'')
          ''owner'' ''vault'' ''key'') ''owner'') ''vault'' = 1"
proof -
  have r: "reachable browserStore" unfolding browserStore_def by (rule reachable.fresh)
  have b: "isBrowser browserStore" by (simp add: browserStore_def)
  have l: "getStoredMultisigsAsync (saveMultisigAddressAsync browserStore ''owner'' ''vault'' ''key'')
     ''owner'' = [\<lparr>stored_multisigPda = ''vault'', stored_createKey = ''key''\<rparr>]"
    by (simp add: stored_after_save)
       (simp add: getStoredMultisigsAsync_def loadData_def browserStore_def ownerEntries_def)
  note t = register_idempotent[OF r, of "''owner''" "''vault''" "''key''"]
  from t have tw: "saveMultisigAddressAsync
        (saveMultisigAddressAsync browserStore ''owner'' ''vault'' ''key'') ''owner'' ''vault'' ''key''
      = saveMultisigAddressAsync browserStore ''owner'' ''vault'' ''key''"
    by blast
  from t b have c4: "entriesFor (getStoredMultisigs
       (saveMultisigAddress (saveMultisigAddress browserStore ''owner'' ''vault'' ''key'')
          ''owner'' ''vault'' ''key'') ''owner'') ''vault'' = 1"
    by blast
  from l have c3: "getStoredMultisigsAsync
     (saveMultisigAddressAsync (saveMultisigAddressAsync browserStore ''owner'' ''vault'' ''key'')
        ''owner'' ''vault'' ''key'') ''owner''
     = [\<lparr>stored_multisigPda = ''vault'', stored_createKey = ''key''\<rparr>]"
    unfolding tw .
  from r b c3 c4 show ?thesis by blast
qed

text \<open>
  Claim C6 as stated covers both registration functions. Under Node, two registrations
  through the synchronous one leave the owner's list without any entry for the vault.
\<close>

theorem sync_register_outside_browser_counterexample:
  "reachable nodeStore \<and>
   getStoredMultisigs
     (saveMultisigAddress (saveMultisigAddress nodeStore ''owner'' ''vault'' ''key'')
        ''owner'' ''vault'' ''key'') ''owner'' = [] \<and>
   entriesFor (getStoredMultisigs
       (saveMultisigAddress (saveMultisigAddress nodeStore ''owner'' ''vault'' ''key'')
          ''owner'' ''vault'' ''key'') ''owner'') ''vault'' = 0"
proof -
  have r: "reachable nodeStore" unfolding nodeStore_def by (rule reachable.fresh)
  have n: "\<not> isBrowser nodeStore" by (simp add: nodeStore_def)
  have s: "saveMultisigAddress nodeStore ''owner'' ''vault'' ''key'' = nodeStore"
    using n by (rule saveMultisigAddress_node)
  have g: "getStoredMultisigs nodeStore ''owner'' = []"
    using n by (rule getStoredMultisigs_node)
  show ?thesis unfolding s g using r by (simp add: entriesFor_def)
qed

section \<open>Importing a vault by address or link\<close>


lemma isBase58_not_space: "isBase58 c \<Longrightarrow> \<not> isWhiteSpace c"
  by (auto simp: isBase58_def isWhiteSpace_def Let_def)


























section \<open>Cipher: decryption undoes encryption\<close>


lemma high_surrogate: "isHighSurrogate u \<Longrightarrow> isSurrogate u"
  unfolding isHighSurrogate_def isSurrogate_def by (simp add: word_le_nat_alt)

lemma toWellFormed_plain: "\<forall>u\<in>set s. \<not> isSurrogate u \<Longrightarrow> toWellFormed s = s"
  by (induction s rule: toWellFormed.induct) (auto dest: high_surrogate)

lemma unit_small: "unat (u :: 16 word) < 65536"
proof -
  have "unat u < 2 ^ LENGTH(16)" by (rule unsigned_less)
  then show ?thesis by simp
qed

lemma byte_small: "unat (b :: 8 word) < 256"
proof -
  have "unat b < 2 ^ LENGTH(8)" by (rule unsigned_less)
  then show ?thesis by simp
qed

lemma unat_byte_of_nat: "n < 256 \<Longrightarrow> unat (of_nat n :: 8 word) = n"
  by (simp add: unat_of_nat)

lemma unat_unit_of_nat: "n < 65536 \<Longrightarrow> unat (of_nat n :: 16 word) = n"
  by (simp add: unat_of_nat)

lemma small_not_surrogate: "unat u < 256 \<Longrightarrow> \<not> isSurrogate u"
  by (simp add: isSurrogate_def word_le_nat_alt)

lemma unat_codeUnit: "unat (of_nat (of_char c) :: 16 word) = of_char c"
proof -
  have "(of_char c :: nat) < 256" by (rule nat_of_char_less_256)
  then have "(of_char c :: nat) < 65536" by (rule less_trans) simp
  then show ?thesis by (rule unat_unit_of_nat)
qed

lemma codeUnits_wellFormed: "isWellFormed (codeUnits s)"
  unfolding isWellFormed_def codeUnits_def
  by (rule toWellFormed_plain) (simp add: small_not_surrogate unat_codeUnit nat_of_char_less_256)

lemma unat_ucast_byte: "unat (ucast (b :: 8 word) :: 16 word) = unat b"
proof -
  have "unat b < 2 ^ 16" using byte_small[of b] by simp
  then show ?thesis by (simp add: unsigned_ucast_eq take_bit_nat_eq_self)
qed



lemma byteChar_charByte: "byteChar (charByte c) = c"
  by (simp add: byteChar_def charByte_def unat_of_nat)

lemma charByte_byteChar: "charByte (byteChar b) = b"
  using byte_small[of b] by (simp add: byteChar_def charByte_def)

lemma length_toyTag: "length (toyTag key) = 16"
  by (simp add: toyTag_def)

lemma toyDecode_unitBytes: "toyDecode (unitBytes u @ rest) = u # toyDecode rest"
proof -
  have d: "unat u div 256 < 256" using unit_small[of u] by simp
  have m: "unat u mod 256 < 256" by simp
  have "(of_nat (unat u div 256 * 256 + unat u mod 256) :: 16 word) = of_nat (unat u)"
    by (simp only: div_mult_mod_eq)
  then show ?thesis
    by (simp add: unitBytes_def unat_byte_of_nat[OF d] unat_byte_of_nat[OF m])
qed

lemma toyDecode_concat: "toyDecode (concat (map unitBytes s)) = s"
proof (induction s)
  case Nil
  show ?case by simp
next
  case (Cons u s)
  then show ?case by (simp add: toyDecode_unitBytes del: toyDecode.simps)
qed

lemma toyDecode_toyEncode: "toyDecode (toyEncode s) = toWellFormed s"
  by (simp add: toyEncode_def toyDecode_concat)

lemma ucast_byte_less: "(ucast (b :: 8 word) :: 16 word) < 256"
  using byte_small[of b] by (simp add: word_less_nat_alt unat_ucast_byte)

lemma toy_btoa:
  "btoa demoPlatform (fromCharCode b) = Some (map byteChar b)"
  by (simp add: demoPlatform_def fromCharCode_def list_all_iff ucast_byte_less comp_def
      unat_ucast_byte byteChar_def)

lemma codeUnit_byteChar: "(of_nat (of_char (byteChar b)) :: 16 word) = ucast b"
  using byte_small[of b] by (simp add: byteChar_def)

lemma toy_atob: "atob demoPlatform (map byteChar b) = Some (fromCharCode b)"
  by (simp add: demoPlatform_def codeUnits_def fromCharCode_def comp_def codeUnit_byteChar)

lemma toy_json_wellFormed: "isWellFormed (jsonStringify demoPlatform b)"
proof -
  have "\<not> isSurrogate 0x5B" by (simp add: isSurrogate_def)
  moreover have "\<forall>u\<in>set (map ucast b :: jsString). \<not> isSurrogate u"
    by (simp add: small_not_surrogate unat_ucast_byte byte_small)
  ultimately have "\<forall>u\<in>set (0x5B # map ucast b :: jsString). \<not> isSurrogate u"
    by simp
  then show ?thesis
    unfolding isWellFormed_def by (simp add: demoPlatform_def toWellFormed_plain)
qed

lemma demoPlatform_contract: "platformContract demoPlatform"
  unfolding platformContract_def
proof (intro conjI allI)
  fix b
  show "\<exists>encoded. btoa demoPlatform (fromCharCode b) = Some encoded \<and>
          atob demoPlatform encoded = Some (fromCharCode b)"
    using toy_btoa[of b] toy_atob[of b] by blast
next
  fix b
  show "isWellFormed (jsonStringify demoPlatform b)" by (rule toy_json_wellFormed)
qed (simp_all add: demoPlatform_def TAG_LENGTH_def length_toyTag comp_def
    byteChar_charByte charByte_byteChar toyDecode_toyEncode)

lemma length_randomBytes: "length (fst (randomBytes n e)) = n"
  by (simp add: randomBytes_def)

lemma frame_split:
  assumes "length salt = 16" and "length iv = 12" and "length tag = 16"
  shows "subarray (salt @ iv @ tag @ c) 0 16 = salt"
    and "subarray (salt @ iv @ tag @ c) 16 28 = iv"
    and "subarray (salt @ iv @ tag @ c) 28 44 = tag"
    and "drop 44 (salt @ iv @ tag @ c) = c"
  using assms by (simp_all add: subarray_def)


lemma encrypt_frame:
  "fst (encrypt pl M P e) =
     base64Encode pl
       (fst (randomBytes 16 e) @ fst (randomBytes 12 (snd (randomBytes 16 e))) @
        snd (gcmEncrypt pl (pbkdf2 pl P (fst (randomBytes 16 e)))
               (fst (randomBytes 12 (snd (randomBytes 16 e)))) (utf8Encode pl M)) @
        fst (gcmEncrypt pl (pbkdf2 pl P (fst (randomBytes 16 e)))
               (fst (randomBytes 12 (snd (randomBytes 16 e)))) (utf8Encode pl M)))"
  by (simp add: encrypt_def SALT_LENGTH_def IV_LENGTH_def deriveKey_def split: prod.splits)

lemma decrypt_frame:
  assumes "base64Decode pl blob = salt @ iv @ tag @ c"
    and "length salt = 16" and "length iv = 12" and "length tag = 16"
  shows "decrypt pl blob P' =
     map_option (utf8Decode pl) (gcmDecrypt pl (pbkdf2 pl P' salt) iv tag c)"
  using frame_split[OF assms(2-4), of c] assms(1)
  by (simp add: decrypt_def Let_def SALT_LENGTH_def IV_LENGTH_def TAG_LENGTH_def deriveKey_def)

lemma decrypt_encrypt_any:
  assumes "platformContract pl"
  shows "decrypt pl (fst (encrypt pl M P e)) P = Some (toWellFormed M)"
proof -
  let ?salt = "fst (randomBytes 16 e)"
  let ?iv = "fst (randomBytes 12 (snd (randomBytes 16 e)))"
  let ?g = "gcmEncrypt pl (pbkdf2 pl P ?salt) ?iv (utf8Encode pl M)"
  from assms have b64: "\<And>b. base64Decode pl (base64Encode pl b) = b"
    and tl: "length (snd ?g) = 16"
    and gcm: "gcmDecrypt pl (pbkdf2 pl P ?salt) ?iv (snd ?g) (fst ?g) = Some (utf8Encode pl M)"
    and utf: "utf8Decode pl (utf8Encode pl M) = toWellFormed M"
    by (simp_all add: platformContract_def TAG_LENGTH_def)
  have "base64Decode pl (fst (encrypt pl M P e)) = ?salt @ ?iv @ snd ?g @ fst ?g"
    by (simp add: encrypt_frame b64)
  from decrypt_frame[OF this length_randomBytes length_randomBytes tl, of P] gcm utf
  show ?thesis by simp
qed

lemma decrypt_encrypt:
  assumes "platformContract pl" and "isWellFormed M"
  shows "decrypt pl (fst (encrypt pl M P e)) P = Some M"
  using decrypt_encrypt_any[OF assms(1), of M P e] assms(2) by (simp add: isWellFormed_def)









section \<open>Keystore: unlocking\<close>

lemma unlockWallet_missing:
  "walletFiles disk WALLET_KEY = None \<Longrightarrow> fst (unlockWallet pl pw disk) = Inl NoWalletError"
  by (simp add: unlockWallet_def storageGet_def)

lemma getKeypair_missing:
  "walletFiles disk WALLET_KEY = None \<Longrightarrow> fst (getKeypair pl pw disk) = Inl NoWalletError"
  by (simp add: getKeypair_def storageGet_def)

lemma unlockWallet_found:
  "walletFiles disk WALLET_KEY = Some w \<Longrightarrow>
   fst (unlockWallet pl pw disk) =
     (case decrypt pl (encryptedSecretKey w) pw of
        None \<Rightarrow> Inl InvalidPasswordError
      | Some js \<Rightarrow>
          (case jsonParse pl js of
             None \<Rightarrow> Inl InvalidPasswordError
           | Some ns \<Rightarrow>
               (case keypairFromSecretKey pl (toUint8Array ns) of
                  None \<Rightarrow> Inl InvalidPasswordError
                | Some kp \<Rightarrow>
                    Inr \<lparr>unlocked_success = True,
                         unlocked_publicKey = keypair_publicKey kp,
                         unlocked_secretKey = secretKeyToBase58 (toUint8Array ns),
                         secretKeyArray = ns,
                         unlocked_name = wallet_name w\<rparr>)))"
  by (simp add: unlockWallet_def storageGet_def split: option.splits)

lemma getKeypair_found:
  "walletFiles disk WALLET_KEY = Some w \<Longrightarrow>
   fst (getKeypair pl pw disk) =
     (case decrypt pl (encryptedSecretKey w) pw of
        None \<Rightarrow> Inl InvalidPasswordError
      | Some js \<Rightarrow>
          (case jsonParse pl js of
             None \<Rightarrow> Inl InvalidPasswordError
           | Some ns \<Rightarrow>
               (case keypairFromSecretKey pl (toUint8Array ns) of
                  None \<Rightarrow> Inl InvalidPasswordError
                | Some kp \<Rightarrow> Inr kp)))"
  by (simp add: getKeypair_def storageGet_def split: option.splits)

lemma unlock_errors:
  "fst (unlockWallet pl pw disk) = Inl err \<Longrightarrow> err = NoWalletError \<or> err = InvalidPasswordError"
  by (cases "walletFiles disk WALLET_KEY")
     (auto simp: unlockWallet_missing unlockWallet_found split: option.splits)

lemma getKeypair_errors:
  "fst (getKeypair pl pw disk) = Inl err \<Longrightarrow> err = NoWalletError \<or> err = InvalidPasswordError"
  by (cases "walletFiles disk WALLET_KEY")
     (auto simp: getKeypair_missing getKeypair_found split: option.splits)

lemma corruptBlob_decrypt:
  "decrypt demoPlatform corruptBlob (codeUnits ''password1'') = Some (codeUnits ''not a key'')"
  unfolding corruptBlob_def
  by (rule decrypt_encrypt[OF demoPlatform_contract codeUnits_wellFormed])

lemma demo_decrypt_other:
  "decrypt demoPlatform (fst (encrypt demoPlatform M P e)) P' =
     (if toyTag (toyEncode P) = toyTag (toyEncode P') then Some (toWellFormed M) else None)"
proof -
  let ?salt = "fst (randomBytes 16 e)"
  let ?iv = "fst (randomBytes 12 (snd (randomBytes 16 e)))"
  have "base64Decode demoPlatform (fst (encrypt demoPlatform M P e)) =
      ?salt @ ?iv @ toyTag (toyEncode P) @ toyEncode M"
    by (simp add: encrypt_frame) (simp add: demoPlatform_def comp_def charByte_byteChar)
  from decrypt_frame[OF this length_randomBytes length_randomBytes length_toyTag, of P']
  show ?thesis by (simp add: demoPlatform_def toyDecode_toyEncode)
qed

lemma corruptBlob_wrong:
  "decrypt demoPlatform corruptBlob (codeUnits ''12345678'') = None"
  unfolding corruptBlob_def demo_decrypt_other
  by (simp add: toyTag_def toyEncode_def codeUnits_wellFormed[unfolded isWellFormed_def])
     (simp add: codeUnits_def unitBytes_def)

lemma corruptDisk_wallet:
  "walletFiles corruptDisk WALLET_KEY =
     Some \<lparr>wallet_name = ''main'', wallet_publicKey = ''owner'',
           encryptedSecretKey = corruptBlob, createdAt = 0\<rparr>"
  by (simp add: corruptDisk_def)

text \<open>
  Claim C2, as the code has it. Without a stored wallet, \<^verbatim>\<open>unlockWallet\<close> and
  \<^verbatim>\<open>getKeypair\<close> fail with \<^verbatim>\<open>NoWalletError\<close>. With one, they fail with
  \<^verbatim>\<open>InvalidPasswordError\<close> when decryption fails, and with the same
  \<^verbatim>\<open>InvalidPasswordError\<close> when decryption succeeds but the plaintext does not parse or
  is rejected as a secret key; they succeed when all three steps do. No other error
  comes out of them.
\<close>

theorem unlock_error_outcomes:
  "(walletFiles disk WALLET_KEY = None \<longrightarrow>
      fst (unlockWallet pl pw disk) = Inl NoWalletError \<and>
      fst (getKeypair pl pw disk) = Inl NoWalletError) \<and>
   (walletFiles disk WALLET_KEY = Some w \<and> decrypt pl (encryptedSecretKey w) pw = None \<longrightarrow>
      fst (unlockWallet pl pw disk) = Inl InvalidPasswordError \<and>
      fst (getKeypair pl pw disk) = Inl InvalidPasswordError) \<and>
   (walletFiles disk WALLET_KEY = Some w \<and> decrypt pl (encryptedSecretKey w) pw = Some js \<and>
    (jsonParse pl js = None \<or>
     (\<exists>ns. jsonParse pl js = Some ns \<and> keypairFromSecretKey pl (toUint8Array ns) = None)) \<longrightarrow>
      fst (unlockWallet pl pw disk) = Inl InvalidPasswordError \<and>
      fst (getKeypair pl pw disk) = Inl InvalidPasswordError) \<and>
   (walletFiles disk WALLET_KEY = Some w \<and> decrypt pl (encryptedSecretKey w) pw = Some js \<and>
    jsonParse pl js = Some ns \<and> keypairFromSecretKey pl (toUint8Array ns) = Some kp \<longrightarrow>
      fst (unlockWallet pl pw disk) =
        Inr \<lparr>unlocked_success = True, unlocked_publicKey = keypair_publicKey kp,
             unlocked_secretKey = secretKeyToBase58 (toUint8Array ns),
             secretKeyArray = ns, unlocked_name = wallet_name w\<rparr> \<and>
      fst (getKeypair pl pw disk) = Inr kp) \<and>
   (fst (unlockWallet pl pw disk) = Inl err \<longrightarrow> err = NoWalletError \<or> err = InvalidPasswordError) \<and>
   (fst (getKeypair pl pw disk) = Inl err \<longrightarrow> err = NoWalletError \<or> err = InvalidPasswordError)"
proof (intro conjI impI)
  assume "walletFiles disk WALLET_KEY = None"
  then show "fst (unlockWallet pl pw disk) = Inl NoWalletError"
    "fst (getKeypair pl pw disk) = Inl NoWalletError"
    by (simp_all add: unlockWallet_missing getKeypair_missing)
next
  assume "walletFiles disk WALLET_KEY = Some w \<and> decrypt pl (encryptedSecretKey w) pw = None"
  then show "fst (unlockWallet pl pw disk) = Inl InvalidPasswordError"
    "fst (getKeypair pl pw disk) = Inl InvalidPasswordError"
    by (simp_all add: unlockWallet_found getKeypair_found)
next
  assume "walletFiles disk WALLET_KEY = Some w \<and> decrypt pl (encryptedSecretKey w) pw = Some js \<and>
    (jsonParse pl js = None \<or>
     (\<exists>ns. jsonParse pl js = Some ns \<and> keypairFromSecretKey pl (toUint8Array ns) = None))"
  then show "fst (unlockWallet pl pw disk) = Inl InvalidPasswordError"
    "fst (getKeypair pl pw disk) = Inl InvalidPasswordError"
    by (auto simp: unlockWallet_found getKeypair_found)
next
  assume "walletFiles disk WALLET_KEY = Some w \<and> decrypt pl (encryptedSecretKey w) pw = Some js \<and>
    jsonParse pl js = Some ns \<and> keypairFromSecretKey pl (toUint8Array ns) = Some kp"
  then show "fst (unlockWallet pl pw disk) =
        Inr \<lparr>unlocked_success = True, unlocked_publicKey = keypair_publicKey kp,
             unlocked_secretKey = secretKeyToBase58 (toUint8Array ns),
             secretKeyArray = ns, unlocked_name = wallet_name w\<rparr>"
    "fst (getKeypair pl pw disk) = Inr kp"
    by (simp_all add: unlockWallet_found getKeypair_found)
next
  assume "fst (unlockWallet pl pw disk) = Inl err"
  then show "err = NoWalletError \<or> err = InvalidPasswordError" by (rule unlock_errors)
next
  assume "fst (getKeypair pl pw disk) = Inl err"
  then show "err = NoWalletError \<or> err = InvalidPasswordError" by (rule getKeypair_errors)
qed

theorem unlock_error_outcomes_witness:
  "walletFiles emptyDisk WALLET_KEY = None \<and>
   fst (unlockWallet demoPlatform (codeUnits ''password1'') emptyDisk) = Inl NoWalletError \<and>
   walletFiles corruptDisk WALLET_KEY \<noteq> None \<and>
   decrypt demoPlatform corruptBlob (codeUnits ''12345678'') = None \<and>
   fst (unlockWallet demoPlatform (codeUnits ''12345678'') corruptDisk) = Inl InvalidPasswordError \<and>
   decrypt demoPlatform corruptBlob (codeUnits ''password1'') = Some (codeUnits ''not a key'') \<and>
   jsonParse demoPlatform (codeUnits ''not a key'') = None \<and>
   fst (getKeypair demoPlatform (codeUnits ''password1'') corruptDisk) = Inl InvalidPasswordError"
proof -
  have e: "walletFiles emptyDisk WALLET_KEY = None" by (simp add: emptyDisk_def)
  have p: "jsonParse demoPlatform (codeUnits ''not a key'') = None"
    by (simp add: demoPlatform_def codeUnits_def)
  from unlock_error_outcomes[where disk = emptyDisk and pl = demoPlatform and pw = "codeUnits ''password1''"] e
  have a: "fst (unlockWallet demoPlatform (codeUnits ''password1'') emptyDisk) = Inl NoWalletError" by blast
  from unlock_error_outcomes[where disk = corruptDisk and pl = demoPlatform
      and pw = "codeUnits ''12345678''"
      and w = "\<lparr>wallet_name = ''main'', wallet_publicKey = ''owner'',
        encryptedSecretKey = corruptBlob, createdAt = 0\<rparr>"]
    corruptDisk_wallet corruptBlob_wrong
  have b: "fst (unlockWallet demoPlatform (codeUnits ''12345678'') corruptDisk) = Inl InvalidPasswordError"
    by simp
  from unlock_error_outcomes[where disk = corruptDisk and pl = demoPlatform
      and pw = "codeUnits ''password1''" and js = "codeUnits ''not a key''"
      and w = "\<lparr>wallet_name = ''main'', wallet_publicKey = ''owner'',
        encryptedSecretKey = corruptBlob, createdAt = 0\<rparr>"]
    corruptDisk_wallet corruptBlob_decrypt p
  have c: "fst (getKeypair demoPlatform (codeUnits ''password1'') corruptDisk) = Inl InvalidPasswordError"
    by simp
  from e a b c p corruptDisk_wallet corruptBlob_wrong corruptBlob_decrypt show ?thesis by simp
qed

text \<open>
  Claim C2 as stated asks for a corrupted-wallet outcome distinct from the
  wrong-password one. The sample blob authenticates under \<^verbatim>\<open>password1\<close> and its
  plaintext is no key; unlocking with \<^verbatim>\<open>password1\<close> and unlocking with a wrong password
  end in the same \<^verbatim>\<open>InvalidPasswordError\<close>.
\<close>

theorem corrupted_wallet_not_distinguished_counterexample:
  "decrypt demoPlatform corruptBlob (codeUnits ''password1'') = Some (codeUnits ''not a key'') \<and>
   jsonParse demoPlatform (codeUnits ''not a key'') = None \<and>
   decrypt demoPlatform corruptBlob (codeUnits ''12345678'') = None \<and>
   fst (unlockWallet demoPlatform (codeUnits ''password1'') corruptDisk) = Inl InvalidPasswordError \<and>
   fst (unlockWallet demoPlatform (codeUnits ''12345678'') corruptDisk) = Inl InvalidPasswordError \<and>
   fst (getKeypair demoPlatform (codeUnits ''password1'') corruptDisk) = Inl InvalidPasswordError"
proof -
  have p: "jsonParse demoPlatform (codeUnits ''not a key'') = None"
    by (simp add: demoPlatform_def codeUnits_def)
  show ?thesis
    using corruptBlob_decrypt corruptBlob_wrong p
    by (simp add: unlockWallet_found[OF corruptDisk_wallet] getKeypair_found[OF corruptDisk_wallet])
qed

section \<open>Keystore: creation\<close>

lemma createWallet_weak:
  "length password < 8 \<Longrightarrow>
   createWallet pl gen now name password e disk = (Inl (WeakPasswordError 8), e, disk)"
  by (simp add: createWallet_def MIN_PASSWORD_LENGTH_def)

lemma createWallet_exists:
  "8 \<le> length password \<Longrightarrow> walletFiles disk WALLET_KEY = Some w \<Longrightarrow>
   createWallet pl gen now name password e disk =
     (Inl WalletExistsError, e, disk\<lparr>ioLog := ioLog disk @ [StorageGet WALLET_KEY]\<rparr>)"
  by (simp add: createWallet_def MIN_PASSWORD_LENGTH_def storageGet_def)

lemma createWallet_new:
  assumes "8 \<le> length password" and "walletFiles disk WALLET_KEY = None"
  shows "createWallet pl gen now name password e disk =
     (Inr \<lparr>created_success = True,
           created_address = keypair_publicKey (fst (gen e)),
           created_name = name\<rparr>,
      snd (encrypt pl (jsonStringify pl (secretKey (fst (gen e)))) password (snd (gen e))),
      storageSet WALLET_KEY
        \<lparr>wallet_name = name,
         wallet_publicKey = keypair_publicKey (fst (gen e)),
         encryptedSecretKey =
           fst (encrypt pl (jsonStringify pl (secretKey (fst (gen e)))) password (snd (gen e))),
         createdAt = now\<rparr>
        (disk\<lparr>ioLog := ioLog disk @ [StorageGet WALLET_KEY]\<rparr>))"
  using assms
  by (simp add: createWallet_def MIN_PASSWORD_LENGTH_def storageGet_def Let_def split: prod.splits)

lemma storageSet_file: "walletFiles (storageSet key v disk) key = Some v"
  by (simp add: storageSet_def)

text \<open>
  Claim C9. A password of fewer than 8 characters makes \<^verbatim>\<open>createWallet\<close> fail with
  \<^verbatim>\<open>WeakPasswordError\<close> and leaves the disk, its access log included, as it was: the
  storage is not touched. With a password of at least 8 characters and a wallet already
  stored it fails with \<^verbatim>\<open>WalletExistsError\<close> and the files stay as they are. Otherwise
  it returns success with the public address of the generated keypair and the name,
  nothing else, and the file under the wallet key holds the name, that address, the
  creation time and the encryption of the secret key, which on a platform that keeps its
  contract decrypts to the secret key under the same password.
\<close>

theorem createWallet_outcomes:
  "(length password < 8 \<longrightarrow>
      createWallet pl gen now name password e disk = (Inl (WeakPasswordError 8), e, disk)) \<and>
   (8 \<le> length password \<and> walletFiles disk WALLET_KEY = Some w \<longrightarrow>
      fst (createWallet pl gen now name password e disk) = Inl WalletExistsError \<and>
      walletFiles (snd (snd (createWallet pl gen now name password e disk))) = walletFiles disk) \<and>
   (8 \<le> length password \<and> walletFiles disk WALLET_KEY = None \<longrightarrow>
      fst (createWallet pl gen now name password e disk) =
        Inr \<lparr>created_success = True,
             created_address = keypair_publicKey (fst (gen e)),
             created_name = name\<rparr> \<and>
      walletFiles (snd (snd (createWallet pl gen now name password e disk))) WALLET_KEY =
        Some \<lparr>wallet_name = name,
              wallet_publicKey = keypair_publicKey (fst (gen e)),
              encryptedSecretKey =
                fst (encrypt pl (jsonStringify pl (secretKey (fst (gen e)))) password (snd (gen e))),
              createdAt = now\<rparr> \<and>
      (platformContract pl \<longrightarrow>
         decrypt pl
           (fst (encrypt pl (jsonStringify pl (secretKey (fst (gen e)))) password (snd (gen e))))
           password
         = Some (jsonStringify pl (secretKey (fst (gen e))))))"
proof (intro conjI impI)
  assume "length password < 8"
  then show "createWallet pl gen now name password e disk = (Inl (WeakPasswordError 8), e, disk)"
    by (rule createWallet_weak)
next
  assume h: "8 \<le> length password \<and> walletFiles disk WALLET_KEY = Some w"
  then have "createWallet pl gen now name password e disk =
     (Inl WalletExistsError, e, disk\<lparr>ioLog := ioLog disk @ [StorageGet WALLET_KEY]\<rparr>)"
    by (simp add: createWallet_exists)
  then show "fst (createWallet pl gen now name password e disk) = Inl WalletExistsError"
    "walletFiles (snd (snd (createWallet pl gen now name password e disk))) = walletFiles disk"
    by simp_all
next
  assume h: "8 \<le> length password \<and> walletFiles disk WALLET_KEY = None"
  then have c: "createWallet pl gen now name password e disk =
     (Inr \<lparr>created_success = True,
           created_address = keypair_publicKey (fst (gen e)),
           created_name = name\<rparr>,
      snd (encrypt pl (jsonStringify pl (secretKey (fst (gen e)))) password (snd (gen e))),
      storageSet WALLET_KEY
        \<lparr>wallet_name = name,
         wallet_publicKey = keypair_publicKey (fst (gen e)),
         encryptedSecretKey =
           fst (encrypt pl (jsonStringify pl (secretKey (fst (gen e)))) password (snd (gen e))),
         createdAt = now\<rparr>
        (disk\<lparr>ioLog := ioLog disk @ [StorageGet WALLET_KEY]\<rparr>))"
    by (simp add: createWallet_new)
  show "fst (createWallet pl gen now name password e disk) =
        Inr \<lparr>created_success = True,
             created_address = keypair_publicKey (fst (gen e)),
             created_name = name\<rparr>"
    unfolding c by simp
  show "walletFiles (snd (snd (createWallet pl gen now name password e disk))) WALLET_KEY =
        Some \<lparr>wallet_name = name,
              wallet_publicKey = keypair_publicKey (fst (gen e)),
              encryptedSecretKey =
                fst (encrypt pl (jsonStringify pl (secretKey (fst (gen e)))) password (snd (gen e))),
              createdAt = now\<rparr>"
    unfolding c by (simp add: storageSet_file)
next
  assume c: "platformContract pl"
  then have "isWellFormed (jsonStringify pl (secretKey (fst (gen e))))"
    by (simp add: platformContract_def)
  with c show "decrypt pl
           (fst (encrypt pl (jsonStringify pl (secretKey (fst (gen e)))) password (snd (gen e))))
           password
         = Some (jsonStringify pl (secretKey (fst (gen e))))"
    by (rule decrypt_encrypt)
qed

theorem createWallet_outcomes_witness:
  "length (codeUnits ''short'') < 8 \<and>
   createWallet demoPlatform demoGenerate 1700000000 ''main'' (codeUnits ''short'') zeroEntropy emptyDisk
     = (Inl (WeakPasswordError 8), zeroEntropy, emptyDisk) \<and>
   8 \<le> length (codeUnits ''correcthorsebattery'') \<and>
   walletFiles corruptDisk WALLET_KEY \<noteq> None \<and>
   fst (createWallet demoPlatform demoGenerate 1700000000 ''main'' (codeUnits ''correcthorsebattery'')
          zeroEntropy corruptDisk) = Inl WalletExistsError \<and>
   walletFiles emptyDisk WALLET_KEY = None \<and>
   platformContract demoPlatform \<and>
   fst (createWallet demoPlatform demoGenerate 1700000000 ''main'' (codeUnits ''correcthorsebattery'')
          zeroEntropy emptyDisk)
     = Inr \<lparr>created_success = True, created_address = [byteChar 0, byteChar 0],
            created_name = ''main''\<rparr> \<and>
   map_option wallet_publicKey
     (walletFiles (snd (snd (createWallet demoPlatform demoGenerate 1700000000 ''main''
          (codeUnits ''correcthorsebattery'') zeroEntropy emptyDisk))) WALLET_KEY)
     = Some [byteChar 0, byteChar 0]"
proof -
  have s: "length (codeUnits ''short'') < 8" by (simp add: codeUnits_def)
  have l: "8 \<le> length (codeUnits ''correcthorsebattery'')" by (simp add: codeUnits_def)
  have e: "walletFiles emptyDisk WALLET_KEY = None" by (simp add: emptyDisk_def)
  have g: "keypair_publicKey (fst (demoGenerate zeroEntropy)) = [byteChar 0, byteChar 0]"
    by (simp add: demoGenerate_def randomBytes_def zeroEntropy_def numeral_2_eq_2)
  note t1 = createWallet_outcomes[where password = "codeUnits ''short''" and pl = demoPlatform
      and gen = demoGenerate and now = 1700000000 and name = "''main''" and e = zeroEntropy
      and disk = emptyDisk]
  note t2 = createWallet_outcomes[where password = "codeUnits ''correcthorsebattery''" and pl = demoPlatform
      and gen = demoGenerate and now = 1700000000 and name = "''main''" and e = zeroEntropy
      and disk = corruptDisk
      and w = "\<lparr>wallet_name = ''main'', wallet_publicKey = ''owner'',
        encryptedSecretKey = corruptBlob, createdAt = 0\<rparr>"]
  note t3 = createWallet_outcomes[where password = "codeUnits ''correcthorsebattery''" and pl = demoPlatform
      and gen = demoGenerate and now = 1700000000 and name = "''main''" and e = zeroEntropy
      and disk = emptyDisk]
  from t1 s have a: "createWallet demoPlatform demoGenerate 1700000000 ''main'' (codeUnits ''short'')
      zeroEntropy emptyDisk = (Inl (WeakPasswordError 8), zeroEntropy, emptyDisk)" by blast
  from t2 l corruptDisk_wallet
  have b: "fst (createWallet demoPlatform demoGenerate 1700000000 ''main'' (codeUnits ''correcthorsebattery'')
          zeroEntropy corruptDisk) = Inl WalletExistsError" by blast
  from t3 l e have c: "fst (createWallet demoPlatform demoGenerate 1700000000 ''main''
          (codeUnits ''correcthorsebattery'') zeroEntropy emptyDisk)
     = Inr \<lparr>created_success = True,
            created_address = keypair_publicKey (fst (demoGenerate zeroEntropy)),
            created_name = ''main''\<rparr>" by blast
  from t3 l e have d: "map_option wallet_publicKey
     (walletFiles (snd (snd (createWallet demoPlatform demoGenerate 1700000000 ''main''
          (codeUnits ''correcthorsebattery'') zeroEntropy emptyDisk))) WALLET_KEY)
     = Some (keypair_publicKey (fst (demoGenerate zeroEntropy)))" by simp
  from s l e a b c d corruptDisk_wallet demoPlatform_contract show ?thesis
    unfolding g by simp
qed

end
